theory Spec2Isabelle
  imports
    Complex_Main
    "HOL-Library.Multiset"
    "HOL-Library.Char_ord"
    "HOL-Library.List_Lexorder"
begin

section \<open>Tables\<close>

text \<open>
  The scripts of the dashboard (\<^verbatim>\<open>dashboard_olympicgames2.py\<close> and its Spanish twin
  \<^verbatim>\<open>olymipic_dashboard_v2.py\<close>, which differs in labels only) hold their data in pandas
  tables. A cell is missing (\<open>NaN\<close>), a number, a string or a truth value; a row gives a
  cell for each column name; a table is its list of column names, the dtype of each
  column and its list of rows. A row's value at a name that is not a column of its table
  is never read.

  A number cell holds the exact value of the machine number in it. The dtype of a column
  belongs to the column, not to its cells: it stays what it is when rows are filtered
  out. \<^verbatim>\<open>read_csv\<close> gives every column one kind of value, so cells of different kinds
  do not meet in one column: a numeric column holds numbers and \<open>NaN\<close>, an object column
  strings and \<open>NaN\<close>.
\<close>

datatype cell = NaN | Number rat | Text string | Boolean bool

type_synonym row = "string \<Rightarrow> cell"

datatype dtype = Numeric_dtype | Bool_dtype | Object_dtype

record dataframe =
  columns :: "string list"
  dtypes :: "string \<Rightarrow> dtype"
  rows :: "row list"

text \<open>A row written as Python writes a dict: the cells given, every other one missing.\<close>

definition mk_row :: "(string \<times> cell) list \<Rightarrow> row" where
  "mk_row kvs c = (case map_of kvs c of Some v \<Rightarrow> v | None \<Rightarrow> NaN)"

text \<open>The exceptions of Python that the scripts can meet.\<close>

datatype py_error = FileNotFoundError | KeyError | TypeError | ValueError | OtherException

text \<open>\<^verbatim>\<open>pd.DataFrame()\<close> and \<^verbatim>\<open>pd.DataFrame(columns=[...])\<close>: no rows, and columns of
  dtype object.\<close>

definition DataFrame :: "string list \<Rightarrow> dataframe" where
  "DataFrame cols = \<lparr>columns = cols, dtypes = (\<lambda>c. Object_dtype), rows = []\<rparr>"

text \<open>\<^verbatim>\<open>df.empty\<close>: one of the two axes has length zero.\<close>

definition empty :: "dataframe \<Rightarrow> bool" where
  "empty df = (columns df = [] \<or> rows df = [])"

text \<open>\<^verbatim>\<open>df[mask]\<close>, the mask given row by row: a new table with the rows the mask keeps.\<close>

definition loc :: "dataframe \<Rightarrow> (row \<Rightarrow> bool) \<Rightarrow> dataframe" where
  "loc df keep = df\<lparr>rows := filter keep (rows df)\<rparr>"

text \<open>\<^verbatim>\<open>pd.notna\<close>, \<^verbatim>\<open>==\<close> and \<^verbatim>\<open>!=\<close> on the cells of a column against a value
  (a missing cell equals nothing), and \<^verbatim>\<open>isin\<close>.\<close>

definition notna :: "cell \<Rightarrow> bool" where
  "notna c = (c \<noteq> NaN)"

definition cell_eq :: "cell \<Rightarrow> cell \<Rightarrow> bool" where
  "cell_eq c v = (c \<noteq> NaN \<and> c = v)"

definition cell_ne :: "cell \<Rightarrow> cell \<Rightarrow> bool" where
  "cell_ne c v = (\<not> cell_eq c v)"

definition isin :: "cell \<Rightarrow> cell list \<Rightarrow> bool" where
  "isin c vals = (c \<in> set vals)"

text \<open>\<^verbatim>\<open>Series.unique()\<close>: the distinct cells in the order of their first appearance.\<close>

definition unique :: "cell list \<Rightarrow> cell list" where
  "unique cs = rev (remdups (rev cs))"

text \<open>\<^verbatim>\<open>df.dropna(subset=...)\<close>: the rows with no missing cell in the named columns.\<close>

definition dropna :: "string list \<Rightarrow> dataframe \<Rightarrow> dataframe" where
  "dropna subs df = loc df (\<lambda>r. list_all (\<lambda>c. notna (r c)) subs)"

text \<open>\<^verbatim>\<open>df[[c1, ..., cn]]\<close>: the named columns only.\<close>

definition project :: "string list \<Rightarrow> dataframe \<Rightarrow> dataframe" where
  "project cols df =
     \<lparr>columns = cols, dtypes = dtypes df,
      rows = map (\<lambda>r c. if c \<in> set cols then r c else NaN) (rows df)\<rparr>"

text \<open>
  The order in which pandas sorts the values of a column (the keys of \<^verbatim>\<open>groupby\<close>,
  \<^verbatim>\<open>sort()\<close> of the values): numbers by value, strings by code
  point; between kinds (which a column read from a file does not mix) truth values come
  first, then numbers, then strings.
\<close>

fun kind :: "cell \<Rightarrow> nat" where
  "kind (Boolean b) = 0"
| "kind (Number x) = 1"
| "kind (Text s) = 2"
| "kind NaN = 3"

fun cell_le :: "cell \<Rightarrow> cell \<Rightarrow> bool" where
  "cell_le (Number x) (Number y) = (x \<le> y)"
| "cell_le (Text s) (Text t) = (s \<le> t)"
| "cell_le (Boolean a) (Boolean b) = (b \<or> \<not> a)"
| "cell_le c d = (kind c \<le> kind d)"

fun insort_cell :: "cell \<Rightarrow> cell list \<Rightarrow> cell list" where
  "insort_cell c [] = [c]"
| "insort_cell c (d # ds) = (if cell_le c d then c # d # ds else d # insort_cell c ds)"

definition sort_cells :: "cell list \<Rightarrow> cell list" where
  "sort_cells cs = foldr insort_cell cs []"

section \<open>Record store: loading the two tables\<close>

text \<open>What the loaders show on the page through \<^verbatim>\<open>st.error\<close> and \<^verbatim>\<open>st.success\<close>.\<close>

datatype st_message =
    Error_missing_columns string "string list"
  | Error_not_found string
  | Error_loading string py_error
  | Error_coords_columns string
  | Success_loaded string nat

definition essential_cols :: "string list" where
  "essential_cols = [''year'', ''type'', ''noc'', ''medal'', ''age'', ''gender'',
                     ''discipline_grouped'', ''name'', ''discipline'']"

text \<open>
  \<^verbatim>\<open>load_data(filepath)\<close>. The outcome of \<^verbatim>\<open>pd.read_csv(filepath)\<close> is a parameter: the
  table read, or the exception raised. The body is one \<^verbatim>\<open>try\<close> whose handlers catch
  \<^verbatim>\<open>FileNotFoundError\<close> and then every \<^verbatim>\<open>Exception\<close>; the result is \<open>Inl\<close> for an
  exception that leaves the function and \<open>Inr\<close> for a normal return, with the messages
  shown.
\<close>

definition load_data :: "string \<Rightarrow> py_error + dataframe \<Rightarrow> py_error + (st_message list \<times> dataframe)" where
  "load_data filepath read_csv =
     (case read_csv of
        Inr df \<Rightarrow>
          (let missing_cols = filter (\<lambda>col. col \<notin> set (columns df)) essential_cols
           in if missing_cols \<noteq> []
              then Inr ([Error_missing_columns filepath missing_cols], DataFrame [])
              else Inr ([Success_loaded filepath (length (rows df))], df))
      | Inl FileNotFoundError \<Rightarrow> Inr ([Error_not_found filepath], DataFrame [])
      | Inl e \<Rightarrow> Inr ([Error_loading filepath e], DataFrame []))"

definition coords_cols :: "string list" where
  "coords_cols = [''noc'', ''country'', ''latitude'', ''longitude'']"

text \<open>\<^verbatim>\<open>load_noc_coords(filepath)\<close>, in the same way.\<close>

definition load_noc_coords :: "string \<Rightarrow> py_error + dataframe \<Rightarrow> py_error + (st_message list \<times> dataframe)" where
  "load_noc_coords filepath read_csv =
     (case read_csv of
        Inr df_coords \<Rightarrow>
          if ''noc'' \<notin> set (columns df_coords) \<or> ''country'' \<notin> set (columns df_coords) \<or>
             ''latitude'' \<notin> set (columns df_coords) \<or> ''longitude'' \<notin> set (columns df_coords)
          then Inr ([Error_coords_columns filepath], DataFrame coords_cols)
          else Inr ([], project coords_cols (dropna coords_cols df_coords))
      | Inl FileNotFoundError \<Rightarrow> Inr ([Error_not_found filepath], DataFrame coords_cols)
      | Inl e \<Rightarrow> Inr ([Error_loading filepath e], DataFrame coords_cols))"

text \<open>The script stops (\<^verbatim>\<open>st.stop()\<close>) when the main table came back empty.\<close>

definition stops_after_load :: "dataframe \<Rightarrow> bool" where
  "stops_after_load df_olympics = empty df_olympics"

section \<open>Filter engine\<close>

text \<open>
  The state of the sidebar widgets: the year slider, the game-type radio button (one of
  the values of the column, or the string \<open>All\<close>) and the gender multiselect.
\<close>

record widgets =
  selected_years :: "int \<times> int"
  selected_type :: cell
  selected_gender :: "cell list"

text \<open>
  \<^verbatim>\<open>df['year'] >= lo\<close> and \<^verbatim>\<open>df['year'] <= hi\<close>: a missing cell compares false, a
  truth value counts as 0 or 1, and a string cell makes Python raise \<^verbatim>\<open>TypeError\<close>.
\<close>

fun is_text :: "cell \<Rightarrow> bool" where
  "is_text (Text s) = True"
| "is_text c = False"

fun cell_between :: "int \<Rightarrow> int \<Rightarrow> cell \<Rightarrow> bool" where
  "cell_between lo hi (Number x) = (of_int lo \<le> x \<and> x \<le> of_int hi)"
| "cell_between lo hi (Boolean b) = (lo \<le> of_bool b \<and> of_bool b \<le> hi)"
| "cell_between lo hi c = False"

definition year_between :: "int \<times> int \<Rightarrow> dataframe \<Rightarrow> py_error + dataframe" where
  "year_between yrs df =
     (if ''year'' \<notin> set (columns df) then Inl KeyError
      else if list_ex (\<lambda>r. is_text (r ''year'')) (rows df) then Inl TypeError
      else Inr (loc df (\<lambda>r. cell_between (fst yrs) (snd yrs) (r ''year''))))"

text \<open>The gender options offered: the values of the column, the missing one removed.\<close>

definition gender_options :: "dataframe \<Rightarrow> cell list" where
  "gender_options df_olympics =
     (if ''gender'' \<in> set (columns df_olympics)
      then filter notna (unique (map (\<lambda>r. r ''gender'') (rows df_olympics)))
      else [])"

text \<open>The three filtering statements that build \<^verbatim>\<open>df_filtered\<close>.\<close>

definition filter_type :: "cell \<Rightarrow> dataframe \<Rightarrow> dataframe" where
  "filter_type sel df =
     (if sel \<noteq> Text ''All'' \<and> ''type'' \<in> set (columns df)
      then loc df (\<lambda>r. cell_eq (r ''type'') sel) else df)"

definition filter_gender :: "cell list \<Rightarrow> dataframe \<Rightarrow> dataframe" where
  "filter_gender sel df =
     (if sel \<noteq> [] \<and> ''gender'' \<in> set (columns df)
      then loc df (\<lambda>r. isin (r ''gender'') sel) else df)"

definition df_filtered :: "widgets \<Rightarrow> dataframe \<Rightarrow> py_error + dataframe" where
  "df_filtered w df_olympics =
     (case year_between (selected_years w) df_olympics of
        Inl e \<Rightarrow> Inl e
      | Inr df \<Rightarrow> Inr (filter_gender (selected_gender w) (filter_type (selected_type w) df)))"

text \<open>Running one computation after another, the first exception ending the run.\<close>

definition and_then :: "py_error + 'a \<Rightarrow> ('a \<Rightarrow> py_error + 'b) \<Rightarrow> py_error + 'b" where
  "and_then m f = (case m of Inl e \<Rightarrow> Inl e | Inr x \<Rightarrow> f x)"

text \<open>
  The filters of \<^verbatim>\<open>app_corregido.py\<close> (\<^verbatim>\<open>app.py\<close> has the same chain): the sidebar
  gives the games' season, a country or \<open>Todos\<close>, a medal or \<open>Todas\<close>, a gender or
  \<open>Ambos\<close>. That script loads its table with no check of the columns, so reading a
  column that is absent raises \<^verbatim>\<open>KeyError\<close>.
\<close>

record sidebar =
  tipo_juego :: string
  pais :: cell
  medalla :: string
  genero :: string

definition select_eq :: "string \<Rightarrow> cell \<Rightarrow> dataframe \<Rightarrow> py_error + dataframe" where
  "select_eq c v df =
     (if c \<in> set (columns df) then Inr (loc df (\<lambda>r. cell_eq (r c) v)) else Inl KeyError)"

definition filter_tipo :: "string \<Rightarrow> dataframe \<Rightarrow> py_error + dataframe" where
  "filter_tipo tipo df =
     select_eq ''type'' (Text (if tipo = ''Verano'' then ''Summer'' else ''Winter'')) df"

definition paises :: "dataframe \<Rightarrow> py_error + cell list" where
  "paises df =
     (if ''noc'' \<in> set (columns df)
      then Inr (sort_cells (unique (filter notna (map (\<lambda>r. r ''noc'') (rows df)))))
      else Inl KeyError)"

definition filter_pais :: "cell \<Rightarrow> dataframe \<Rightarrow> py_error + dataframe" where
  "filter_pais p df = (if p \<noteq> Text ''Todos'' then select_eq ''noc'' p df else Inr df)"

definition filter_medalla :: "string \<Rightarrow> dataframe \<Rightarrow> py_error + dataframe" where
  "filter_medalla m df = (if m \<noteq> ''Todas'' then select_eq ''medal'' (Text m) df else Inr df)"

definition filter_genero :: "string \<Rightarrow> dataframe \<Rightarrow> py_error + dataframe" where
  "filter_genero g df = (if g \<noteq> ''Ambos'' then select_eq ''gender'' (Text g) df else Inr df)"

definition df_tipo :: "sidebar \<Rightarrow> dataframe \<Rightarrow> py_error + dataframe" where
  "df_tipo sb df =
     and_then (filter_tipo (tipo_juego sb) df) (\<lambda>d1.
     and_then (paises d1) (\<lambda>_.
     and_then (filter_pais (pais sb) d1) (\<lambda>d2.
     and_then (filter_medalla (medalla sb) d2) (\<lambda>d3.
     filter_genero (genero sb) d3))))"

section \<open>Example tables\<close>

text \<open>The dtypes \<^verbatim>\<open>read_csv\<close> gives the columns of the data file: \<open>year\<close> and \<open>age\<close> are
  numbers, the others strings.\<close>

definition olympics_dtypes :: "string \<Rightarrow> dtype" where
  "olympics_dtypes c = (if c = ''year'' \<or> c = ''age'' then Numeric_dtype else Object_dtype)"

text \<open>The three participations of the scenario in the specification's section 8.\<close>

definition athlete_A :: row where
  "athlete_A = mk_row [(''year'', Number 2000), (''type'', Text ''Summer''), (''noc'', Text ''USA''),
     (''medal'', Text ''Gold''), (''age'', Number 24), (''gender'', Text ''Male''),
     (''discipline_grouped'', Text ''Aquatics''), (''name'', Text ''A''),
     (''discipline'', Text ''Swimming'')]"

definition athlete_B :: row where
  "athlete_B = mk_row [(''year'', Number 2000), (''type'', Text ''Summer''), (''noc'', Text ''USA''),
     (''gender'', Text ''Female''), (''discipline_grouped'', Text ''Aquatics''),
     (''name'', Text ''B''), (''discipline'', Text ''Swimming'')]"

definition athlete_C :: row where
  "athlete_C = mk_row [(''year'', Number 2004), (''type'', Text ''Summer''), (''noc'', Text ''FRA''),
     (''medal'', Text ''Silver''), (''age'', Number 30), (''gender'', Text ''Male''),
     (''discipline_grouped'', Text ''Athletics''), (''name'', Text ''C''),
     (''discipline'', Text ''Marathon'')]"

definition example_df :: dataframe where
  "example_df = \<lparr>columns = essential_cols, dtypes = olympics_dtypes, rows = [athlete_A, athlete_B, athlete_C]\<rparr>"

text \<open>A participation whose gender was not recorded, and tables that hold it.\<close>

definition athlete_D :: row where
  "athlete_D = mk_row [(''year'', Number 2000), (''type'', Text ''Summer''), (''noc'', Text ''USA''),
     (''medal'', Text ''Bronze''), (''age'', Number 19),
     (''discipline_grouped'', Text ''Aquatics''), (''name'', Text ''D''),
     (''discipline'', Text ''Diving'')]"

definition no_gender_df :: dataframe where
  "no_gender_df = \<lparr>columns = essential_cols, dtypes = olympics_dtypes, rows = [athlete_D]\<rparr>"

definition some_gender_df :: dataframe where
  "some_gender_df = \<lparr>columns = essential_cols, dtypes = olympics_dtypes, rows = [athlete_A, athlete_D]\<rparr>"

definition all_years :: widgets where
  "all_years = \<lparr>selected_years = (2000, 2004), selected_type = Text ''All'', selected_gender = []\<rparr>"

section \<open>Aggregator\<close>

text \<open>\<^verbatim>\<open>df[c] = values\<close>, the values (of one dtype) given row by row: the column is added
  when new.\<close>

definition setitem :: "string \<Rightarrow> dtype \<Rightarrow> (row \<Rightarrow> cell) \<Rightarrow> dataframe \<Rightarrow> dataframe" where
  "setitem c d f df =
     \<lparr>columns = (if c \<in> set (columns df) then columns df else columns df @ [c]),
      dtypes = (dtypes df)(c := d),
      rows = map (\<lambda>r. r(c := f r)) (rows df)\<rparr>"

text \<open>
  \<^verbatim>\<open>df.groupby(key)\<close>: the keys are the values of the column that are not missing, each
  once, in ascending order; the group of a key holds the rows with that value, in the
  order of the table.
\<close>

definition group_keys :: "string \<Rightarrow> dataframe \<Rightarrow> cell list" where
  "group_keys key df = sort_cells (unique (filter notna (map (\<lambda>r. r key) (rows df))))"

definition group_rows :: "string \<Rightarrow> dataframe \<Rightarrow> cell \<Rightarrow> row list" where
  "group_rows key df k = filter (\<lambda>r. r key = k) (rows df)"

text \<open>\<^verbatim>\<open>nunique\<close>: how many distinct values, the missing one not counted.\<close>

definition nunique :: "cell list \<Rightarrow> nat" where
  "nunique cs = length (unique (filter notna cs))"

text \<open>\<^verbatim>\<open>sum\<close> of a column: truth values count 0 and 1, missing cells are skipped.\<close>

fun summand :: "cell \<Rightarrow> rat" where
  "summand (Number x) = x"
| "summand (Boolean b) = of_bool b"
| "summand c = 0"

definition series_sum :: "cell list \<Rightarrow> rat" where
  "series_sum cs = foldl (\<lambda>acc c. acc + summand c) 0 cs"

text \<open>\<^verbatim>\<open>(x == v).sum()\<close>: how many cells of the column equal the value.\<close>

definition count_eq :: "cell \<Rightarrow> cell list \<Rightarrow> nat" where
  "count_eq v cs = length (filter (\<lambda>c. cell_eq c v) cs)"

text \<open>\<^verbatim>\<open>astype(int)\<close> on a number: the fraction is cut off.\<close>

definition astype_int :: "rat \<Rightarrow> cell" where
  "astype_int x = Number (of_int (if 0 \<le> x then \<lfloor>x\<rfloor> else \<lceil>x\<rceil>))"

text \<open>
  The statement \<^verbatim>\<open>df_filtered['medal_present'] = df_filtered['medal'].notna() &
  (df_filtered['medal'] != 'No Medal')\<close>.
\<close>

definition medal_present :: "row \<Rightarrow> bool" where
  "medal_present r = (notna (r ''medal'') \<and> cell_ne (r ''medal'') (Text ''No Medal''))"

definition with_medal_present :: "dataframe \<Rightarrow> dataframe" where
  "with_medal_present df =
     setitem ''medal_present'' Bool_dtype (\<lambda>r. Boolean (medal_present r)) df"

text \<open>
  The aggregation \<^verbatim>\<open>groupby('noc').agg(...).reset_index()\<close> and the conversion of
  \<open>Total_Medals\<close> that follows it: one row for each key.
\<close>

definition metrics_cols :: "string list" where
  "metrics_cols = [''noc'', ''Total_Athletes'', ''Total_Medals'', ''Gold'', ''Silver'', ''Bronze'']"

definition metrics_row :: "cell \<Rightarrow> row list \<Rightarrow> row" where
  "metrics_row k g =
     mk_row [(''noc'', k),
       (''Total_Athletes'', Number (of_nat (nunique (map (\<lambda>r. r ''name'') g)))),
       (''Total_Medals'', astype_int (series_sum (map (\<lambda>r. r ''medal_present'') g))),
       (''Gold'', Number (of_nat (count_eq (Text ''Gold'') (map (\<lambda>r. r ''medal'') g)))),
       (''Silver'', Number (of_nat (count_eq (Text ''Silver'') (map (\<lambda>r. r ''medal'') g)))),
       (''Bronze'', Number (of_nat (count_eq (Text ''Bronze'') (map (\<lambda>r. r ''medal'') g))))]"

definition agg_by_noc :: "dataframe \<Rightarrow> dataframe" where
  "agg_by_noc df =
     \<lparr>columns = metrics_cols,
      dtypes = (\<lambda>c. if c = ''noc'' then dtypes df ''noc'' else Numeric_dtype),
      rows = map (\<lambda>k. metrics_row k (group_rows ''noc'' df k)) (group_keys ''noc'' df)\<rparr>"

text \<open>
  \<^verbatim>\<open>metrics_by_noc\<close>, from the filtered table: the two statements above. Reading a
  column the table does not have raises \<^verbatim>\<open>KeyError\<close> (a table that \<open>load_data\<close> let
  through has all three).
\<close>

definition metrics_by_noc :: "dataframe \<Rightarrow> py_error + dataframe" where
  "metrics_by_noc df =
     (if ''medal'' \<in> set (columns df) \<and> ''noc'' \<in> set (columns df) \<and>
         ''name'' \<in> set (columns df)
      then Inr (agg_by_noc (with_medal_present df))
      else Inl KeyError)"

text \<open>The values of the medal column that the tally reckons with: a missing cell, the
  string \<open>No Medal\<close> and the three medals.\<close>

definition known_medal :: "cell \<Rightarrow> bool" where
  "known_medal c = (c = NaN \<or> c = Text ''No Medal'' \<or> c = Text ''Gold'' \<or> c = Text ''Silver'' \<or>
                    c = Text ''Bronze'')"

text \<open>A table in which one medal is spelt in lower case.\<close>

definition athlete_E :: row where
  "athlete_E = mk_row [(''year'', Number 2000), (''type'', Text ''Summer''), (''noc'', Text ''USA''),
     (''medal'', Text ''gold''), (''age'', Number 21), (''gender'', Text ''Female''),
     (''discipline_grouped'', Text ''Aquatics''), (''name'', Text ''E''),
     (''discipline'', Text ''Swimming'')]"

definition odd_medal_df :: dataframe where
  "odd_medal_df = \<lparr>columns = essential_cols, dtypes = olympics_dtypes, rows = [athlete_E]\<rparr>"

text \<open>A main table read from a file that has no \<open>year\<close> column, and a coordinate file
  with a column more than needed and a row whose latitude is missing.\<close>

definition no_year_df :: dataframe where
  "no_year_df =
     \<lparr>columns = [''type'', ''noc'', ''medal'', ''age'', ''gender'', ''discipline_grouped'',
                 ''name'', ''discipline''],
      dtypes = olympics_dtypes, rows = [athlete_A]\<rparr>"

definition coords_USA :: row where
  "coords_USA = mk_row [(''noc'', Text ''USA''), (''country'', Text ''United States''),
     (''capital'', Text ''Washington''), (''latitude'', Number 38), (''longitude'', Number (-97))]"

definition coords_FRA :: row where
  "coords_FRA = mk_row [(''noc'', Text ''FRA''), (''country'', Text ''France''),
     (''capital'', Text ''Paris''), (''longitude'', Number 2)]"

definition coords_dtypes :: "string \<Rightarrow> dtype" where
  "coords_dtypes c = (if c = ''latitude'' \<or> c = ''longitude'' then Numeric_dtype else Object_dtype)"

definition coords_file :: dataframe where
  "coords_file =
     \<lparr>columns = [''noc'', ''country'', ''capital'', ''latitude'', ''longitude''],
      dtypes = coords_dtypes, rows = [coords_USA, coords_FRA]\<rparr>"

section \<open>Join resolver\<close>

text \<open>
  \<^verbatim>\<open>pd.merge(left, right, on=key, how='left')\<close> for two tables that share no column but
  the key (as the tally and the coordinate table do): every row of the left table, in
  order, once with each row of the right table that has its key, and once with missing
  cells in the right table's columns when no row has.

  Before it joins, pandas compares the dtypes of the two key columns, when both tables
  have rows: a key column of strings against a numeric key column makes it raise
  \<^verbatim>\<open>ValueError\<close>.
\<close>

definition has_text :: "string \<Rightarrow> dataframe \<Rightarrow> bool" where
  "has_text c df = list_ex (\<lambda>r. is_text (r c)) (rows df)"

definition key_conflict :: "string \<Rightarrow> dataframe \<Rightarrow> dataframe \<Rightarrow> bool" where
  "key_conflict key left right =
     (rows left \<noteq> [] \<and> rows right \<noteq> [] \<and>
      (dtypes left key = Object_dtype \<and> has_text key left \<and> dtypes right key = Numeric_dtype \<or>
       dtypes left key = Numeric_dtype \<and> dtypes right key = Object_dtype \<and> has_text key right))"

definition joined :: "string \<Rightarrow> dataframe \<Rightarrow> row \<Rightarrow> row \<Rightarrow> row" where
  "joined key right l r = (\<lambda>c. if c \<in> set (columns right) \<and> c \<noteq> key then r c else l c)"

definition merge_left :: "string \<Rightarrow> dataframe \<Rightarrow> dataframe \<Rightarrow> py_error + dataframe" where
  "merge_left key left right =
     (if key_conflict key left right then Inl ValueError
      else Inr
        \<lparr>columns = columns left @ filter (\<lambda>c. c \<noteq> key) (columns right),
         dtypes = (\<lambda>c. if c \<in> set (columns right) \<and> c \<noteq> key then dtypes right c
                       else dtypes left c),
         rows = concat (map (\<lambda>l.
                  (case filter (\<lambda>r. r key = l key) (rows right) of
                     [] \<Rightarrow> [joined key right l (\<lambda>c. NaN)]
                   | matches \<Rightarrow> map (joined key right l) matches))
                  (rows left))\<rparr>)"

text \<open>\<^verbatim>\<open>metrics['Total_Medals'] > 0\<close> on a cell.\<close>

fun gt_zero :: "cell \<Rightarrow> bool" where
  "gt_zero (Number x) = (0 < x)"
| "gt_zero (Boolean b) = b"
| "gt_zero c = False"

text \<open>
  \<^verbatim>\<open>df_map_data\<close>, the table handed to the map: computed when the coordinate table is not
  empty, from the tally of \<open>metrics_by_noc\<close> and the table of \<open>load_noc_coords\<close>; the
  script shows a warning instead when it is (\<open>None\<close>), and the exception of the join
  ends the run.
\<close>

definition df_map_data :: "dataframe \<Rightarrow> dataframe \<Rightarrow> py_error + dataframe option" where
  "df_map_data metrics df_coords =
     (if \<not> empty df_coords \<and> ''noc'' \<in> set (columns metrics)
      then (case merge_left ''noc'' (loc metrics (\<lambda>r. gt_zero (r ''Total_Medals''))) df_coords of
              Inl e \<Rightarrow> Inl e
            | Inr merged \<Rightarrow> Inr (Some (dropna [''latitude'', ''longitude''] merged)))
      else Inr None)"

text \<open>The coordinate table that the loader makes of the example file.\<close>

definition example_coords :: dataframe where
  "example_coords = project coords_cols (dropna coords_cols coords_file)"

text \<open>
  Tables for the join: a fourth participation, of a country that won no medal, and a
  coordinate file that has that country too. Of the three countries of the tally, one
  has a medal and coordinates, one a medal and no latitude, one coordinates and no medal.
\<close>

definition athlete_F :: row where
  "athlete_F = mk_row [(''year'', Number 2004), (''type'', Text ''Summer''), (''noc'', Text ''GER''),
     (''age'', Number 27), (''gender'', Text ''Female''),
     (''discipline_grouped'', Text ''Athletics''), (''name'', Text ''F''),
     (''discipline'', Text ''Marathon'')]"

definition map_df :: dataframe where
  "map_df = \<lparr>columns = essential_cols, dtypes = olympics_dtypes,
             rows = [athlete_A, athlete_B, athlete_C, athlete_F]\<rparr>"

definition coords_GER :: row where
  "coords_GER = mk_row [(''noc'', Text ''GER''), (''country'', Text ''Germany''),
     (''capital'', Text ''Berlin''), (''latitude'', Number 51), (''longitude'', Number 10)]"

definition map_coords :: dataframe where
  "map_coords = project coords_cols (dropna coords_cols
     \<lparr>columns = [''noc'', ''country'', ''capital'', ''latitude'', ''longitude''],
      dtypes = coords_dtypes, rows = [coords_USA, coords_FRA, coords_GER]\<rparr>)"

definition map_metrics :: dataframe where
  "map_metrics = agg_by_noc (with_medal_present map_df)"

definition ger_tally :: row where
  "ger_tally = metrics_row (Text ''GER'') (group_rows ''noc'' (with_medal_present map_df) (Text ''GER''))"

definition map_out :: dataframe where
  "map_out = (case df_map_data map_metrics map_coords of
                Inr (Some out) \<Rightarrow> out | Inr None \<Rightarrow> DataFrame [] | Inl e \<Rightarrow> DataFrame [])"

text \<open>A coordinate file whose country codes are numbers.\<close>

definition numeric_noc_coords :: dataframe where
  "numeric_noc_coords =
     \<lparr>columns = coords_cols,
      dtypes = (\<lambda>c. if c = ''country'' then Object_dtype else Numeric_dtype),
      rows = [mk_row [(''noc'', Number 1), (''country'', Text ''United States''),
                      (''latitude'', Number 38), (''longitude'', Number (-97))]]\<rparr>"

section \<open>Numeric summary by discipline\<close>

text \<open>\<^verbatim>\<open>pd.api.types.is_numeric_dtype(df[c])\<close>: the dtype of the column is not object
  (numbers and truth values are numeric).\<close>

definition is_numeric_dtype :: "dataframe \<Rightarrow> string \<Rightarrow> bool" where
  "is_numeric_dtype df c = (dtypes df c \<noteq> Object_dtype)"

text \<open>A column as pandas holds it: strings stand in columns of dtype object only.\<close>

definition well_typed :: "dataframe \<Rightarrow> string \<Rightarrow> bool" where
  "well_typed df c = (dtypes df c = Object_dtype \<or> \<not> list_ex (\<lambda>r. is_text (r c)) (rows df))"

text \<open>
  The arithmetic of the mean is that of 64-bit floating point numbers, with its rounding,
  and pandas adds with a running compensation. What it does with the numbers is a
  parameter here: the accumulator it starts from, how a value is added to the accumulator,
  and how the accumulator is divided by the count.
\<close>

record 'a float_arith =
  fzero :: 'a
  fadd :: "'a \<Rightarrow> rat \<Rightarrow> 'a"
  fdiv :: "'a \<Rightarrow> nat \<Rightarrow> rat"

text \<open>Arithmetic without rounding.\<close>

definition exact_arith :: "rat float_arith" where
  "exact_arith = \<lparr>fzero = 0, fadd = (\<lambda>acc x. acc + x), fdiv = (\<lambda>acc n. acc / of_nat n)\<rparr>"

text \<open>
  \<^verbatim>\<open>mean()\<close> of a numeric column, as pandas computes it: one pass over the cells that
  adds the ones that are present to the accumulator and counts them, then the quotient;
  the missing value when none is present. (It is only called on a column without strings.)
\<close>

fun mean_step :: "'a float_arith \<Rightarrow> 'a \<times> nat \<Rightarrow> cell \<Rightarrow> 'a \<times> nat" where
  "mean_step ar (acc, n) (Number x) = (fadd ar acc x, Suc n)"
| "mean_step ar (acc, n) (Boolean b) = (fadd ar acc (of_bool b), Suc n)"
| "mean_step ar (acc, n) c = (acc, n)"

definition series_mean :: "'a float_arith \<Rightarrow> cell list \<Rightarrow> cell" where
  "series_mean ar cs =
     (case foldl (mean_step ar) (fzero ar, 0) cs of
        (acc, n) \<Rightarrow> if n = 0 then NaN else Number (fdiv ar acc n))"

text \<open>\<^verbatim>\<open>df.groupby(key)[field].nunique().reset_index(name=out)\<close> and
  \<^verbatim>\<open>df.groupby(key)[field].mean().reset_index()\<close>.\<close>

definition group_nunique :: "string \<Rightarrow> string \<Rightarrow> string \<Rightarrow> dataframe \<Rightarrow> dataframe" where
  "group_nunique key field out df =
     \<lparr>columns = [key, out],
      dtypes = (\<lambda>c. if c = out then Numeric_dtype else dtypes df key),
      rows = map (\<lambda>k. mk_row [(key, k),
                    (out, Number (of_nat (nunique (map (\<lambda>r. r field) (group_rows key df k)))))])
               (group_keys key df)\<rparr>"

definition group_mean :: "'a float_arith \<Rightarrow> string \<Rightarrow> string \<Rightarrow> dataframe \<Rightarrow> dataframe" where
  "group_mean ar key field df =
     \<lparr>columns = [key, field],
      dtypes = (\<lambda>c. if c = field then Numeric_dtype else dtypes df key),
      rows = map (\<lambda>k. mk_row [(key, k),
                    (field, series_mean ar (map (\<lambda>r. r field) (group_rows key df k)))])
               (group_keys key df)\<rparr>"

text \<open>
  \<^verbatim>\<open>df.nlargest(n, c)\<close>, which keeps the first of equal values first
  (\<^verbatim>\<open>keep='first'\<close>): the first \<open>n\<close> rows in descending order of the column.
\<close>

fun insert_desc :: "string \<Rightarrow> row \<Rightarrow> row list \<Rightarrow> row list" where
  "insert_desc c x [] = [x]"
| "insert_desc c x (y # ys) =
     (if cell_le (y c) (x c) then x # y # ys else y # insert_desc c x ys)"

definition nlargest :: "nat \<Rightarrow> string \<Rightarrow> dataframe \<Rightarrow> dataframe" where
  "nlargest n c df = df\<lparr>rows := take n (foldr (insert_desc c) (rows df) [])\<rparr>"

text \<open>
  The statements that build \<^verbatim>\<open>age_by_discipline\<close>, under their guard (\<open>None\<close> is the
  warning shown when the guard fails; reading the column \<open>name\<close> raises when it is
  absent). The last step, \<^verbatim>\<open>sort_values('age', ascending=False)\<close>, is the parameter
  \<open>sort_values\<close>: pandas sorts with an algorithm (quicksort) that fixes the order of
  the rows up to the order among equal ages. The arithmetic of the mean is the parameter
  \<open>ar\<close>.
\<close>

definition top_disciplines_by_athletes :: "dataframe \<Rightarrow> cell list" where
  "top_disciplines_by_athletes df =
     map (\<lambda>r. r ''discipline'')
       (rows (nlargest 20 ''athlete_count''
                (group_nunique ''discipline'' ''name'' ''athlete_count'' df)))"

definition age_by_discipline ::
    "'a float_arith \<Rightarrow> (row list \<Rightarrow> row list) \<Rightarrow> dataframe \<Rightarrow> py_error + dataframe option" where
  "age_by_discipline ar sort_values df =
     (if ''age'' \<in> set (columns df) \<and> is_numeric_dtype df ''age'' \<and>
         ''discipline'' \<in> set (columns df)
      then if ''name'' \<in> set (columns df)
           then let means = group_mean ar ''discipline'' ''age''
                              (loc df (\<lambda>r. isin (r ''discipline'') (top_disciplines_by_athletes df)))
                in Inr (Some (means\<lparr>rows := sort_values (rows means)\<rparr>))
           else Inl KeyError
      else Inr None)"

text \<open>
  The mean as the specification words it: the values that are present, added up and
  divided by their number; a missing cell enters neither.
\<close>

definition present_values :: "cell list \<Rightarrow> rat list" where
  "present_values cs = map summand (filter notna cs)"

definition mean_of_present :: "'a float_arith \<Rightarrow> cell list \<Rightarrow> cell" where
  "mean_of_present ar cs =
     (if present_values cs = [] then NaN
      else Number (fdiv ar (foldl (fadd ar) (fzero ar) (present_values cs))
                     (length (present_values cs))))"

text \<open>A sort that pandas' contract allows: descending, equal values in the order they had,
  missing values last.\<close>

definition sort_values_desc :: "string \<Rightarrow> row list \<Rightarrow> row list" where
  "sort_values_desc c rs =
     foldr (insert_desc c) (filter (\<lambda>r. notna (r c)) rs) [] @ filter (\<lambda>r. \<not> notna (r c)) rs"

section \<open>The tables in memory during a session\<close>

text \<open>
  Python names refer to tables that live in memory; a statement either makes a new table
  (indexing with a mask, \<^verbatim>\<open>groupby\<close>, \<^verbatim>\<open>merge\<close>, \<^verbatim>\<open>copy\<close>, \<^verbatim>\<open>dropna\<close>) or changes
  the table a name refers to in place (assigning a column, \<^verbatim>\<open>dropna(inplace=True)\<close>).
  The memory is the list of the tables made so far, a table's address its place in the
  list.
\<close>

type_synonym memory = "dataframe list"

definition new :: "dataframe \<Rightarrow> memory \<Rightarrow> nat \<times> memory" where
  "new df mem = (length mem, mem @ [df])"

definition in_place :: "nat \<Rightarrow> (dataframe \<Rightarrow> dataframe) \<Rightarrow> memory \<Rightarrow> memory" where
  "in_place a f mem = mem[a := f (mem ! a)]"

text \<open>How a run of the script ends: at its last line, at \<^verbatim>\<open>st.stop()\<close>, or with an
  exception that nothing catches.\<close>

datatype status = Finished | Stopped | Crashed py_error

text \<open>The state of all the widgets that decide which tables a run makes.\<close>

record interaction =
  sidebar_widgets :: widgets
  selected_metric :: string
  group_by_cat :: string
  scatter_color :: string

text \<open>
  The statements that bind \<^verbatim>\<open>df_filtered\<close>: indexing by the year mask always makes a
  new table; the name is bound again to a new table when a type or a gender filter
  applies.
\<close>

definition bind_df_filtered :: "widgets \<Rightarrow> nat \<Rightarrow> memory \<Rightarrow> py_error + nat \<times> memory" where
  "bind_df_filtered w df_olympics mem =
     (case year_between (selected_years w) (mem ! df_olympics) of
        Inl e \<Rightarrow> Inl e
      | Inr by_year \<Rightarrow>
          (case new by_year mem of (a1, mem1) \<Rightarrow>
           (case (if selected_type w \<noteq> Text ''All'' \<and> ''type'' \<in> set (columns (mem1 ! a1))
                  then new (filter_type (selected_type w) (mem1 ! a1)) mem1
                  else (a1, mem1)) of (a2, mem2) \<Rightarrow>
              Inr (if selected_gender w \<noteq> [] \<and> ''gender'' \<in> set (columns (mem2 ! a2))
                   then new (filter_gender (selected_gender w) (mem2 ! a2)) mem2
                   else (a2, mem2)))))"

text \<open>
  The geographic tab: the column \<open>medal_present\<close> is written into the filtered table in
  place, the tally is a new table, and so is the join, from which the rows without
  coordinates are dropped in place.
\<close>

definition geo_tab :: "nat \<Rightarrow> nat \<Rightarrow> memory \<Rightarrow> status \<times> memory" where
  "geo_tab filtered df_coords mem =
     (if ''medal'' \<notin> set (columns (mem ! filtered)) then (Crashed KeyError, mem)
      else let mem1 = in_place filtered with_medal_present mem in
        if ''noc'' \<notin> set (columns (mem1 ! filtered)) \<or> ''name'' \<notin> set (columns (mem1 ! filtered))
        then (Crashed KeyError, mem1)
        else (case new (agg_by_noc (mem1 ! filtered)) mem1 of (metrics, mem2) \<Rightarrow>
          if \<not> empty (mem2 ! df_coords) \<and> ''noc'' \<in> set (columns (mem2 ! metrics))
          then (case merge_left ''noc''
                        (loc (mem2 ! metrics) (\<lambda>r. gt_zero (r ''Total_Medals'')))
                        (mem2 ! df_coords) of
                  Inl e \<Rightarrow> (Crashed e, mem2)
                | Inr merged \<Rightarrow>
                    (case new merged mem2 of (map_data, mem3) \<Rightarrow>
                       (Finished, in_place map_data (dropna [''latitude'', ''longitude'']) mem3)))
          else (Finished, mem2)))"

text \<open>
  The athletes' tab: \<^verbatim>\<open>plot_data\<close> is a copy of the filtered table, cut down in place to
  the rows that have the chosen metric (and the grouping column, when one is chosen);
  \<^verbatim>\<open>scatter_data\<close> is a new table.
\<close>

definition available_numeric_cols :: "dataframe \<Rightarrow> string list" where
  "available_numeric_cols df =
     filter (\<lambda>col. col \<in> set (columns df) \<and> is_numeric_dtype df col)
       [''age'', ''height_cm'', ''weight_kg'']"

definition athletes_tab :: "interaction \<Rightarrow> nat \<Rightarrow> memory \<Rightarrow> status \<times> memory" where
  "athletes_tab i filtered mem =
     (if available_numeric_cols (mem ! filtered) = [] then (Finished, mem)
      else (case new (mem ! filtered) mem of (plot_data, mem1) \<Rightarrow>
        let dropna_subset = [selected_metric i] @
              (if group_by_cat i \<noteq> ''None'' \<and> group_by_cat i \<in> set (columns (mem1 ! plot_data))
               then [group_by_cat i] else []);
            mem2 = in_place plot_data (dropna dropna_subset) mem1
        in if ''height_cm'' \<in> set (available_numeric_cols (mem2 ! filtered)) \<and>
              ''weight_kg'' \<in> set (available_numeric_cols (mem2 ! filtered))
           then (Finished, snd (new (dropna ([''height_cm'', ''weight_kg''] @
                                    (if scatter_color i \<noteq> ''None'' then [scatter_color i] else []))
                                  (mem2 ! filtered)) mem2))
           else (Finished, mem2)))"

text \<open>The disciplines' tab, as far as it makes tables from the filtered one: the mean age
  by discipline.\<close>

definition disciplines_tab ::
    "'a float_arith \<Rightarrow> (row list \<Rightarrow> row list) \<Rightarrow> nat \<Rightarrow> memory \<Rightarrow> status \<times> memory" where
  "disciplines_tab ar sort_values filtered mem =
     (if ''discipline_grouped'' \<in> set (columns (mem ! filtered)) \<and>
         ''discipline'' \<in> set (columns (mem ! filtered))
      then (case age_by_discipline ar sort_values (mem ! filtered) of
              Inl e \<Rightarrow> (Crashed e, mem)
            | Inr None \<Rightarrow> (Finished, mem)
            | Inr (Some t) \<Rightarrow> (Finished, snd (new t mem)))
      else (Finished, mem))"

text \<open>One statement block after another: the next one runs when the one before finished.\<close>

definition and_next :: "status \<times> memory \<Rightarrow> (memory \<Rightarrow> status \<times> memory) \<Rightarrow> status \<times> memory" where
  "and_next r f = (case r of (Finished, mem) \<Rightarrow> f mem | (st, mem) \<Rightarrow> (st, mem))"

text \<open>
  One run of the script after loading, on one state of the widgets: the script stops
  when the main table is empty, and again when the filtered one is. The arithmetic of
  the mean and the sort of the last table are the parameters \<open>ar\<close> and \<open>sort_values\<close>.
\<close>

definition run ::
    "'a float_arith \<Rightarrow> (row list \<Rightarrow> row list) \<Rightarrow> interaction \<Rightarrow> nat \<Rightarrow> nat \<Rightarrow> memory \<Rightarrow>
     status \<times> memory" where
  "run ar sort_values i df_olympics df_coords mem =
     (if empty (mem ! df_olympics) then (Stopped, mem)
      else (case bind_df_filtered (sidebar_widgets i) df_olympics mem of
              Inl e \<Rightarrow> (Crashed e, mem)
            | Inr (filtered, mem1) \<Rightarrow>
                if empty (mem1 ! filtered) \<and> \<not> empty (mem1 ! df_olympics) then (Stopped, mem1)
                else and_next (and_next (geo_tab filtered df_coords mem1)
                                 (athletes_tab i filtered))
                       (disciplines_tab ar sort_values filtered)))"

text \<open>A session: the script runs once for every interaction, on the memory the runs
  before left.\<close>

definition session ::
    "'a float_arith \<Rightarrow> (row list \<Rightarrow> row list) \<Rightarrow> interaction list \<Rightarrow> nat \<Rightarrow> nat \<Rightarrow> memory \<Rightarrow>
     memory" where
  "session ar sort_values steps df_olympics df_coords mem =
     foldl (\<lambda>m i. snd (run ar sort_values i df_olympics df_coords m)) mem steps"

text \<open>An interaction on the example tables.\<close>

definition example_interaction :: interaction where
  "example_interaction =
     \<lparr>sidebar_widgets = all_years, selected_metric = ''age'', group_by_cat = ''gender'',
      scatter_color = ''None''\<rparr>"

text \<open>What a statement leaves alone: no table is lost, and the first \<open>n\<close> tables of the
  memory are what they were.\<close>

definition kept :: "nat \<Rightarrow> memory \<Rightarrow> memory \<Rightarrow> bool" where
  "kept n mem mem' = (length mem \<le> length mem' \<and> take n mem' = take n mem)"

section \<open>Ranked lists\<close>

text \<open>
  \<^verbatim>\<open>top_countries = metrics_by_noc.sort_values(by=sort_by, ascending=False).head(top_n)\<close>.
  The sort is the parameter \<open>sort_values\<close>: the script asks for no sorting algorithm,
  pandas then sorts with quicksort, and the order it leaves among rows of equal value is
  not part of the script.
\<close>

definition top_countries ::
    "(string \<Rightarrow> row list \<Rightarrow> row list) \<Rightarrow> string \<Rightarrow> nat \<Rightarrow> dataframe \<Rightarrow> dataframe" where
  "top_countries sort_values sort_by top_n metrics =
     metrics\<lparr>rows := take top_n (sort_values sort_by (rows metrics))\<rparr>"

section \<open>Properties of the filter engine\<close>

lemma columns_loc: "columns (loc df p) = columns df"
  by (simp add: loc_def)

lemma rows_loc: "rows (loc df p) = filter p (rows df)"
  by (simp add: loc_def)

lemma loc_loc_same: "loc (loc df p) p = loc df p"
  by (simp add: loc_def)

lemma filter_type_idem: "filter_type sel (filter_type sel df) = filter_type sel df"
  by (simp add: filter_type_def columns_loc loc_loc_same)

lemma filter_gender_idem: "filter_gender sel (filter_gender sel df) = filter_gender sel df"
  by (simp add: filter_gender_def columns_loc loc_loc_same)

lemma columns_filter_type: "columns (filter_type sel df) = columns df"
  by (simp add: filter_type_def columns_loc)

lemma columns_filter_gender: "columns (filter_gender sel df) = columns df"
  by (simp add: filter_gender_def columns_loc)

lemma rows_filter_type_subset: "set (rows (filter_type sel df)) \<subseteq> set (rows df)"
  by (auto simp: filter_type_def rows_loc)

lemma rows_filter_gender_subset: "set (rows (filter_gender sel df)) \<subseteq> set (rows df)"
  by (auto simp: filter_gender_def rows_loc)

lemma loc_commute: "loc (loc df p) q = loc (loc df q) p"
  by (simp add: loc_def conj_commute)

lemma loc_loc: "loc (loc df p) q = loc df (\<lambda>r. p r \<and> q r)"
  by (simp add: loc_def conj_commute)

lemma loc_cong: "(\<And>r. r \<in> set (rows df) \<Longrightarrow> p r = q r) \<Longrightarrow> loc df p = loc df q"
  by (simp add: loc_def cong: filter_cong)

lemma loc_id: "\<forall>r \<in> set (rows df). p r \<Longrightarrow> loc df p = df"
  by (simp add: loc_def)

lemma filter_type_gender_commute:
  "filter_type s (filter_gender g df) = filter_gender g (filter_type s df)"
  by (simp add: filter_type_def filter_gender_def columns_loc loc_commute)

text \<open>
  A table that passed the year filter passes it again unchanged, and so does every
  table with the same columns and some of its rows.
\<close>

lemma year_between_again:
  assumes "year_between yrs df = Inr d"
    and "columns d' = columns d"
    and "set (rows d') \<subseteq> set (rows d)"
  shows "year_between yrs d' = Inr d'"
proof -
  from assms(1) have c: "''year'' \<in> set (columns df)"
    and t: "\<not> list_ex (\<lambda>r. is_text (r ''year'')) (rows df)"
    and d: "d = loc df (\<lambda>r. cell_between (fst yrs) (snd yrs) (r ''year''))"
    by (auto simp: year_between_def split: if_splits)
  from d have cd: "columns d = columns df" by (simp add: columns_loc)
  from d have rd: "set (rows d) \<subseteq> set (rows df)" by (auto simp: rows_loc)
  from d have pd: "\<forall>r \<in> set (rows d). cell_between (fst yrs) (snd yrs) (r ''year'')"
    by (simp add: rows_loc)
  have 1: "''year'' \<in> set (columns d')" using c cd assms(2) by simp
  have 2: "\<not> list_ex (\<lambda>r. is_text (r ''year'')) (rows d')"
    using t rd assms(3) by (auto simp: list_ex_iff)
  have 3: "loc d' (\<lambda>r. cell_between (fst yrs) (snd yrs) (r ''year'')) = d'"
    using pd assms(3) by (intro loc_id) auto
  show ?thesis using 1 2 3 by (simp add: year_between_def)
qed

lemma df_filtered_again:
  "and_then (df_filtered w df_olympics) (df_filtered w) = df_filtered w df_olympics"
proof (cases "year_between (selected_years w) df_olympics")
  case (Inl e)
  then show ?thesis by (simp add: df_filtered_def and_then_def)
next
  case (Inr d)
  let ?out = "filter_gender (selected_gender w) (filter_type (selected_type w) d)"
  have "columns ?out = columns d"
    by (simp add: columns_filter_gender columns_filter_type)
  moreover have "set (rows ?out) \<subseteq> set (rows d)"
    using rows_filter_gender_subset rows_filter_type_subset by blast
  ultimately have "year_between (selected_years w) ?out = Inr ?out"
    using Inr year_between_again by blast
  moreover have "filter_gender (selected_gender w) (filter_type (selected_type w) ?out) = ?out"
    by (simp add: filter_type_gender_commute filter_type_idem filter_gender_idem)
  ultimately show ?thesis using Inr by (simp add: df_filtered_def and_then_def)
qed

lemma df_tipo_again: "and_then (df_tipo sb df) (df_tipo sb) = df_tipo sb df"
  unfolding df_tipo_def filter_tipo_def paises_def filter_pais_def filter_medalla_def
    filter_genero_def select_eq_def and_then_def
  by (auto simp: columns_loc loc_loc intro!: loc_cong)

text \<open>
  C5. Applying the filters a second time, with the same widget state, to the table they
  produced gives that table again; when the first application raised, so does the
  composition. This holds for the filters of the dashboard (year range, game type,
  gender set) and for those of \<^verbatim>\<open>app_corregido.py\<close> (game type, country, medal,
  gender).
\<close>

theorem apply_idempotent:
  "and_then (df_filtered w R) (df_filtered w) = df_filtered w R \<and>
   and_then (df_tipo sb R) (df_tipo sb) = df_tipo sb R"
  by (simp add: df_filtered_again df_tipo_again)

section \<open>Partition by gender, and the complete gender selection\<close>

lemma rows_filter_gender_one:
  "''gender'' \<in> set (columns R) \<Longrightarrow>
   rows (filter_gender [g] R) = filter (\<lambda>r. r ''gender'' = g) (rows R)"
  by (simp add: filter_gender_def rows_loc isin_def)

lemma rows_select_eq:
  "c \<in> set (columns R) \<Longrightarrow>
   select_eq c (Text a) R = Inr (loc R (\<lambda>r. r c = Text a))"
  by (auto simp: select_eq_def cell_eq_def intro!: loc_cong)

lemma two_way_split:
  assumes "a \<noteq> b" and "\<forall>r \<in> set xs. f r = a \<or> f r = b"
  shows "set (filter (\<lambda>r. f r = a) xs) \<inter> set (filter (\<lambda>r. f r = b) xs) = {}"
    and "mset (filter (\<lambda>r. f r = a) xs) + mset (filter (\<lambda>r. f r = b) xs) = mset xs"
    and "set (filter (\<lambda>r. f r = a) xs) \<union> set (filter (\<lambda>r. f r = b) xs) = set xs"
proof -
  show "set (filter (\<lambda>r. f r = a) xs) \<inter> set (filter (\<lambda>r. f r = b) xs) = {}"
    using assms(1) by auto
  have "filter (\<lambda>r. f r = b) xs = filter (\<lambda>r. \<not> f r = a) xs"
    using assms by (intro filter_cong) auto
  then show "mset (filter (\<lambda>r. f r = a) xs) + mset (filter (\<lambda>r. f r = b) xs) = mset xs"
    by simp
  show "set (filter (\<lambda>r. f r = a) xs) \<union> set (filter (\<lambda>r. f r = b) xs) = set xs"
    using assms(2) by auto
qed

text \<open>
  C6. In a table whose gender column holds only the two values \<open>a\<close> and \<open>b\<close>, the gender
  filter with only \<open>a\<close> selected and the one with only \<open>b\<close> selected (no other filter
  applied) keep disjoint sets of rows whose union is the rows of the table; counted with
  repetitions, every row falls in exactly one of the two. The same holds for the gender
  filter of \<^verbatim>\<open>app_corregido.py\<close>.
\<close>

theorem gender_partition:
  assumes col: "''gender'' \<in> set (columns R)"
    and ne: "a \<noteq> b"
    and two: "\<forall>r \<in> set (rows R). r ''gender'' = Text a \<or> r ''gender'' = Text b"
  shows "set (rows (filter_gender [Text a] R)) \<inter> set (rows (filter_gender [Text b] R)) = {} \<and>
         set (rows (filter_gender [Text a] R)) \<union> set (rows (filter_gender [Text b] R)) = set (rows R) \<and>
         mset (rows (filter_gender [Text a] R)) + mset (rows (filter_gender [Text b] R)) = mset (rows R) \<and>
         (a \<noteq> ''Ambos'' \<and> b \<noteq> ''Ambos'' \<longrightarrow>
            (\<exists>A B. filter_genero a R = Inr A \<and> filter_genero b R = Inr B \<and>
                   set (rows A) \<inter> set (rows B) = {} \<and>
                   set (rows A) \<union> set (rows B) = set (rows R) \<and>
                   mset (rows A) + mset (rows B) = mset (rows R)))"
proof -
  have ne': "Text a \<noteq> Text b" using ne by simp
  note split = two_way_split[OF ne' two]
  show ?thesis
    using split
    by (simp add: rows_filter_gender_one[OF col] filter_genero_def rows_select_eq[OF col] rows_loc)
qed

theorem gender_partition_witness:
  "set (rows (filter_gender [Text ''Male''] example_df)) \<inter>
     set (rows (filter_gender [Text ''Female''] example_df)) = {} \<and>
   mset (rows (filter_gender [Text ''Male''] example_df)) +
     mset (rows (filter_gender [Text ''Female''] example_df)) = mset (rows example_df)"
proof -
  have c: "''gender'' \<in> set (columns example_df)"
    by (simp add: example_df_def essential_cols_def)
  have n: "''Male'' \<noteq> ''Female''" by simp
  have t: "\<forall>r \<in> set (rows example_df). r ''gender'' = Text ''Male'' \<or> r ''gender'' = Text ''Female''"
    by (simp add: example_df_def athlete_A_def athlete_B_def athlete_C_def mk_row_def)
  show ?thesis using gender_partition[OF c n t] by simp
qed


lemma set_unique: "set (unique cs) = set cs"
  by (simp add: unique_def)

lemma gender_options_columns: "gender_options df \<noteq> [] \<Longrightarrow> ''gender'' \<in> set (columns df)"
  by (auto simp: gender_options_def split: if_splits)

lemma isin_gender_options:
  assumes "''gender'' \<in> set (columns df)" and "r \<in> set (rows df)"
  shows "isin (r ''gender'') (gender_options df) = notna (r ''gender'')"
  using assms by (auto simp: gender_options_def isin_def set_unique)

lemma year_between_rows:
  "year_between yrs df = Inr d \<Longrightarrow> columns d = columns df \<and> set (rows d) \<subseteq> set (rows df)"
  by (auto simp: year_between_def columns_loc rows_loc split: if_splits)

lemma all_genders_is_dropna:
  assumes "gender_options df_olympics \<noteq> []"
  shows "df_filtered (w\<lparr>selected_gender := gender_options df_olympics\<rparr>) df_olympics =
         and_then (df_filtered (w\<lparr>selected_gender := []\<rparr>) df_olympics)
           (\<lambda>df. Inr (dropna [''gender''] df))"
proof (cases "year_between (selected_years w) df_olympics")
  case (Inl e)
  then show ?thesis by (simp add: df_filtered_def and_then_def)
next
  case (Inr d)
  let ?d1 = "filter_type (selected_type w) d"
  have col: "''gender'' \<in> set (columns df_olympics)"
    using assms by (rule gender_options_columns)
  have c1: "''gender'' \<in> set (columns ?d1)"
    using col year_between_rows[OF Inr] by (simp add: columns_filter_type)
  have r1: "set (rows ?d1) \<subseteq> set (rows df_olympics)"
    using year_between_rows[OF Inr] rows_filter_type_subset by blast
  have "loc ?d1 (\<lambda>r. isin (r ''gender'') (gender_options df_olympics)) =
        loc ?d1 (\<lambda>r. notna (r ''gender''))"
    using r1 by (intro loc_cong isin_gender_options[OF col]) auto
  then show ?thesis
    using Inr assms c1
    by (simp add: df_filtered_def and_then_def filter_gender_def dropna_def)
qed

text \<open>
  C9, as amended. When the main table has at least one gender value that is not missing,
  selecting every gender option offered and filtering gives what no gender selection
  gives, with the rows of missing gender dropped: no row of the result has a missing
  gender.
\<close>

theorem all_genders_excludes_null:
  assumes "gender_options df_olympics \<noteq> []"
  shows "df_filtered (w\<lparr>selected_gender := gender_options df_olympics\<rparr>) df_olympics =
           and_then (df_filtered (w\<lparr>selected_gender := []\<rparr>) df_olympics)
             (\<lambda>df. Inr (dropna [''gender''] df)) \<and>
         (\<forall>out. df_filtered (w\<lparr>selected_gender := gender_options df_olympics\<rparr>) df_olympics = Inr out
            \<longrightarrow> (\<forall>r \<in> set (rows out). r ''gender'' \<noteq> NaN))"
proof -
  note eq = all_genders_is_dropna[OF assms, of w]
  have "\<forall>r \<in> set (rows out). r ''gender'' \<noteq> NaN"
    if "df_filtered (w\<lparr>selected_gender := gender_options df_olympics\<rparr>) df_olympics = Inr out" for out
    using that unfolding eq
    by (auto simp: and_then_def dropna_def rows_loc notna_def split: sum.splits)
  with eq show ?thesis by blast
qed

lemma some_gender_options: "gender_options some_gender_df = [Text ''Male'']"
  by (simp add: gender_options_def some_gender_df_def essential_cols_def unique_def
      athlete_A_def athlete_D_def mk_row_def notna_def)

theorem all_genders_excludes_null_witness:
  "gender_options some_gender_df \<noteq> [] \<and>
   df_filtered (all_years\<lparr>selected_gender := gender_options some_gender_df\<rparr>) some_gender_df =
     Inr (some_gender_df\<lparr>rows := [athlete_A]\<rparr>) \<and>
   df_filtered all_years some_gender_df = Inr some_gender_df"
proof -
  have h: "gender_options some_gender_df \<noteq> []" by (simp add: some_gender_options)
  have b: "df_filtered (all_years\<lparr>selected_gender := []\<rparr>) some_gender_df = Inr some_gender_df"
    by (simp add: df_filtered_def year_between_def all_years_def some_gender_df_def
        essential_cols_def filter_type_def filter_gender_def loc_def
        athlete_A_def athlete_D_def mk_row_def)
  have d: "dropna [''gender''] some_gender_df = some_gender_df\<lparr>rows := [athlete_A]\<rparr>"
    by (simp add: dropna_def loc_def some_gender_df_def notna_def
        athlete_A_def athlete_D_def mk_row_def)
  have a: "all_years\<lparr>selected_gender := []\<rparr> = all_years" by (simp add: all_years_def)
  from all_genders_excludes_null[OF h, of all_years] b d a h show ?thesis
    by (simp add: and_then_def)
qed

text \<open>
  C9 as written fails on a table whose gender values are all missing: no option is
  offered, the selection is empty, the gender filter is skipped and the row of missing
  gender stays.
\<close>

theorem all_genders_null_counterexample:
  "gender_options no_gender_df = [] \<and>
   df_filtered (all_years\<lparr>selected_gender := gender_options no_gender_df\<rparr>) no_gender_df =
     Inr no_gender_df \<and>
   map (\<lambda>r. r ''gender'') (rows no_gender_df) = [NaN]"
  by (simp add: gender_options_def no_gender_df_def essential_cols_def unique_def
      athlete_D_def mk_row_def notna_def df_filtered_def year_between_def all_years_def
      filter_type_def filter_gender_def loc_def)

section \<open>The medal tally by country\<close>

lemma series_sum_acc:
  "foldl (\<lambda>acc c. acc + summand c) a (map (\<lambda>r. Boolean (p r)) g) = a + of_nat (length (filter p g))"
  by (induction g arbitrary: a) auto

lemma series_sum_flags:
  "series_sum (map (\<lambda>r. Boolean (p r)) g) = of_nat (length (filter p g))"
  by (simp add: series_sum_def series_sum_acc)

lemma astype_int_of_nat: "astype_int (of_nat n) = Number (of_nat n)"
  by (simp add: astype_int_def)

lemma group_rows_with_medal_present:
  "group_rows ''noc'' (with_medal_present df) k =
   map (\<lambda>r. r(''medal_present'' := Boolean (medal_present r))) (group_rows ''noc'' df k)"
  by (simp add: group_rows_def with_medal_present_def setitem_def filter_map comp_def)

lemma metrics_row_with_medal_present:
  "metrics_row k (map (\<lambda>r. r(''medal_present'' := Boolean (medal_present r))) g) =
   mk_row [(''noc'', k),
       (''Total_Athletes'', Number (of_nat (nunique (map (\<lambda>r. r ''name'') g)))),
       (''Total_Medals'', Number (of_nat (length (filter medal_present g)))),
       (''Gold'', Number (of_nat (length (filter (\<lambda>r. cell_eq (r ''medal'') (Text ''Gold'')) g)))),
       (''Silver'', Number (of_nat (length (filter (\<lambda>r. cell_eq (r ''medal'') (Text ''Silver'')) g)))),
       (''Bronze'', Number (of_nat (length (filter (\<lambda>r. cell_eq (r ''medal'') (Text ''Bronze'')) g))))]"
  by (simp add: metrics_row_def comp_def series_sum_flags astype_int_of_nat count_eq_def
      filter_map)

lemma medal_count_split:
  assumes "\<forall>r \<in> set g. known_medal (r ''medal'')"
  shows "length (filter medal_present g) =
         length (filter (\<lambda>r. cell_eq (r ''medal'') (Text ''Gold'')) g) +
         length (filter (\<lambda>r. cell_eq (r ''medal'') (Text ''Silver'')) g) +
         length (filter (\<lambda>r. cell_eq (r ''medal'') (Text ''Bronze'')) g)"
  using assms
  by (induction g) (auto simp: known_medal_def medal_present_def cell_eq_def cell_ne_def notna_def)

lemma rows_metrics:
  assumes "metrics_by_noc df = Inr m" and "g \<in> set (rows m)"
  shows "\<exists>k. g = metrics_row k (map (\<lambda>r. r(''medal_present'' := Boolean (medal_present r)))
                  (group_rows ''noc'' df k))"
  using assms
  by (auto simp: metrics_by_noc_def agg_by_noc_def group_rows_with_medal_present split: if_splits)

text \<open>
  C1, as amended. In the tally by country the column \<open>Total_Medals\<close> of a group counts the
  rows of the group whose medal is neither missing nor the string \<open>No Medal\<close>; when
  every medal of the table is missing, \<open>No Medal\<close>, \<open>Gold\<close>, \<open>Silver\<close> or \<open>Bronze\<close>, the
  three medal columns of every group add up to it.
\<close>

theorem medal_tally_adds_up:
  assumes "metrics_by_noc df = Inr m"
    and "\<forall>r \<in> set (rows df). known_medal (r ''medal'')"
    and "g \<in> set (rows m)"
  shows "\<exists>gold silver bronze. g ''Gold'' = Number (of_nat gold) \<and> g ''Silver'' = Number (of_nat silver) \<and>
           g ''Bronze'' = Number (of_nat bronze) \<and>
           g ''Total_Medals'' = Number (of_nat (gold + silver + bronze)) \<and>
           gold + silver + bronze =
             length (filter (\<lambda>r. r ''noc'' = g ''noc'' \<and> r ''medal'' \<noteq> NaN \<and> r ''medal'' \<noteq> Text ''No Medal'')
               (rows df))"
proof -
  from rows_metrics[OF assms(1,3)] obtain k where
    g: "g = metrics_row k (map (\<lambda>r. r(''medal_present'' := Boolean (medal_present r)))
              (group_rows ''noc'' df k))" by blast
  let ?grp = "group_rows ''noc'' df k"
  have known: "\<forall>r \<in> set ?grp. known_medal (r ''medal'')"
    using assms(2) by (simp add: group_rows_def)
  have k: "g ''noc'' = k" by (simp add: g metrics_row_with_medal_present mk_row_def)
  have tot: "length (filter medal_present ?grp) =
    length (filter (\<lambda>r. r ''noc'' = k \<and> r ''medal'' \<noteq> NaN \<and> r ''medal'' \<noteq> Text ''No Medal'') (rows df))"
    by (simp add: group_rows_def medal_present_def notna_def cell_ne_def cell_eq_def conj_commute
        cong: conj_cong)
  show ?thesis
    unfolding k
    apply (rule exI[of _ "length (filter (\<lambda>r. cell_eq (r ''medal'') (Text ''Gold'')) ?grp)"])
    apply (rule exI[of _ "length (filter (\<lambda>r. cell_eq (r ''medal'') (Text ''Silver'')) ?grp)"])
    apply (rule exI[of _ "length (filter (\<lambda>r. cell_eq (r ''medal'') (Text ''Bronze'')) ?grp)"])
    using medal_count_split[OF known] tot
    by (simp add: g metrics_row_with_medal_present mk_row_def)
qed


lemma example_known: "\<forall>r \<in> set (rows example_df). known_medal (r ''medal'')"
  by (simp add: example_df_def athlete_A_def athlete_B_def athlete_C_def mk_row_def known_medal_def)

theorem medal_tally_adds_up_witness:
  "metrics_by_noc example_df = Inr (agg_by_noc (with_medal_present example_df)) \<and>
   list_all (\<lambda>r. known_medal (r ''medal'')) (rows example_df) \<and>
   list_all (\<lambda>g. \<exists>gold silver bronze.
       g ''Gold'' = Number (of_nat gold) \<and> g ''Silver'' = Number (of_nat silver) \<and>
       g ''Bronze'' = Number (of_nat bronze) \<and>
       g ''Total_Medals'' = Number (of_nat (gold + silver + bronze)) \<and>
       gold + silver + bronze =
         length (filter (\<lambda>r. r ''noc'' = g ''noc'' \<and> r ''medal'' \<noteq> NaN \<and> r ''medal'' \<noteq> Text ''No Medal'')
           (rows example_df)))
     (rows (agg_by_noc (with_medal_present example_df)))"
proof -
  have m: "metrics_by_noc example_df = Inr (agg_by_noc (with_medal_present example_df))"
    by (simp add: metrics_by_noc_def example_df_def essential_cols_def)
  show ?thesis
    using m example_known medal_tally_adds_up[OF m example_known]
    by (simp add: list_all_iff)
qed

text \<open>
  C1 as written fails on a table with a medal spelt \<open>gold\<close>: the row counts in
  \<open>Total_Medals\<close> and in none of \<open>Gold\<close>, \<open>Silver\<close>, \<open>Bronze\<close>.
\<close>

theorem medal_tally_counterexample:
  "(case metrics_by_noc odd_medal_df of
      Inr m \<Rightarrow> map (\<lambda>g. (g ''noc'', g ''Gold'', g ''Silver'', g ''Bronze'', g ''Total_Medals'')) (rows m)
    | Inl e \<Rightarrow> []) = [(Text ''USA'', Number 0, Number 0, Number 0, Number 1)]"
  by (simp add: metrics_by_noc_def odd_medal_df_def essential_cols_def agg_by_noc_def
      metrics_row_def series_sum_def count_eq_def astype_int_def nunique_def
      group_keys_def group_rows_def with_medal_present_def setitem_def unique_def sort_cells_def
      notna_def athlete_E_def mk_row_def medal_present_def cell_eq_def cell_ne_def)

section \<open>The two loaders\<close>

text \<open>
  C3, as amended. When the table read lacks one of the nine essential columns,
  \<open>load_data\<close> raises nothing: it returns normally, having shown the missing columns
  with \<^verbatim>\<open>st.error\<close>, and what it returns is the empty table, on which the script stops.
\<close>

theorem load_data_missing_column:
  assumes "\<exists>c \<in> set essential_cols. c \<notin> set (columns df)"
  shows "load_data filepath (Inr df) =
           Inr ([Error_missing_columns filepath
                   (filter (\<lambda>col. col \<notin> set (columns df)) essential_cols)], DataFrame []) \<and>
         stops_after_load (DataFrame [])"
proof -
  from assms have "filter (\<lambda>col. col \<notin> set (columns df)) essential_cols \<noteq> []"
    by (auto simp: filter_empty_conv)
  then show ?thesis
    by (simp add: load_data_def Let_def stops_after_load_def empty_def DataFrame_def)
qed

theorem load_data_missing_column_witness:
  "load_data ''jjoo.csv'' (Inr no_year_df) =
     Inr ([Error_missing_columns ''jjoo.csv'' [''year'']], DataFrame []) \<and>
   stops_after_load (DataFrame [])"
proof -
  have "\<exists>c \<in> set essential_cols. c \<notin> set (columns no_year_df)"
    by (simp add: essential_cols_def no_year_df_def)
  from load_data_missing_column[OF this, of "''jjoo.csv''"] show ?thesis
    by (simp add: essential_cols_def no_year_df_def)
qed

text \<open>
  C3 as written fails: on a file without the \<open>year\<close> column the load ends with a
  normal return (of the empty table), not with an error passed to the caller.
\<close>

theorem load_data_returns_counterexample:
  "(case load_data ''jjoo.csv'' (Inr no_year_df) of Inl e \<Rightarrow> False | Inr (msgs, df) \<Rightarrow> df = DataFrame [])"
  by (simp add: load_data_def Let_def essential_cols_def no_year_df_def)

lemma rows_project_dropna:
  assumes "r \<in> set (rows (project cols (dropna cols df)))" and "c \<in> set cols"
  shows "r c \<noteq> NaN"
  using assms
  by (auto simp: project_def dropna_def rows_loc list_all_iff notna_def)

text \<open>
  C10. Whatever \<^verbatim>\<open>read_csv\<close> does, \<open>load_noc_coords\<close> returns normally a table whose
  columns are exactly \<open>noc\<close>, \<open>country\<close>, \<open>latitude\<close>, \<open>longitude\<close> and whose rows have
  no missing cell in them: no row at all when the file is absent, when reading raised
  anything else or when one of the four columns is absent; otherwise the rows of the file
  that have the four cells, cut down to the four columns.
\<close>

theorem load_noc_coords_total:
  "\<exists>msgs df. load_noc_coords filepath read_csv = Inr (msgs, df) \<and>
      columns df = coords_cols \<and>
      (\<forall>r \<in> set (rows df). \<forall>c \<in> set coords_cols. r c \<noteq> NaN) \<and>
      (case read_csv of
         Inl e \<Rightarrow> rows df = []
       | Inr t \<Rightarrow> if set coords_cols \<subseteq> set (columns t)
                  then df = project coords_cols (dropna coords_cols t) else rows df = [])"
proof (cases read_csv)
  case (Inl e)
  then show ?thesis
    by (cases e) (simp_all add: load_noc_coords_def DataFrame_def)
next
  case (Inr t)
  show ?thesis
  proof (cases "set coords_cols \<subseteq> set (columns t)")
    case True
    then have "load_noc_coords filepath read_csv = Inr ([], project coords_cols (dropna coords_cols t))"
      using Inr by (simp add: load_noc_coords_def coords_cols_def)
    moreover have "columns (project coords_cols (dropna coords_cols t)) = coords_cols"
      by (simp add: project_def)
    ultimately show ?thesis
      using Inr True rows_project_dropna by auto
  next
    case False
    then have "load_noc_coords filepath read_csv = Inr ([Error_coords_columns filepath], DataFrame coords_cols)"
      using Inr by (auto simp: load_noc_coords_def coords_cols_def)
    then show ?thesis using Inr False by (simp add: DataFrame_def)
  qed
qed

theorem load_noc_coords_total_witness:
  "(\<exists>msgs df. load_noc_coords ''noc_coordinates.csv'' (Inr coords_file) = Inr (msgs, df) \<and>
      columns df = coords_cols \<and>
      map (\<lambda>r. map r coords_cols) (rows df) =
        [[Text ''USA'', Text ''United States'', Number 38, Number (-97)]]) \<and>
   (\<exists>msgs df. load_noc_coords ''noc_coordinates.csv'' (Inl FileNotFoundError) = Inr (msgs, df) \<and>
      columns df = coords_cols \<and> rows df = [])"
proof (rule conjI)
  have s: "set coords_cols \<subseteq> set (columns coords_file)"
    by (simp add: coords_cols_def coords_file_def)
  have p: "map (\<lambda>r. map r coords_cols) (rows (project coords_cols (dropna coords_cols coords_file))) =
        [[Text ''USA'', Text ''United States'', Number 38, Number (-97)]]"
    by (simp add: project_def dropna_def loc_def coords_cols_def coords_file_def notna_def
        coords_USA_def coords_FRA_def mk_row_def)
  obtain msgs df where a:
    "load_noc_coords ''noc_coordinates.csv'' (Inr coords_file) = Inr (msgs, df) \<and>
      columns df = coords_cols \<and>
      (\<forall>r \<in> set (rows df). \<forall>c \<in> set coords_cols. r c \<noteq> NaN) \<and>
      (case (Inr coords_file :: py_error + dataframe) of
         Inl e \<Rightarrow> rows df = []
       | Inr t \<Rightarrow> if set coords_cols \<subseteq> set (columns t)
                  then df = project coords_cols (dropna coords_cols t) else rows df = [])"
    using load_noc_coords_total[of "''noc_coordinates.csv''" "Inr coords_file"]
    by (elim exE) (rule that)
  from a have l: "load_noc_coords ''noc_coordinates.csv'' (Inr coords_file) = Inr (msgs, df)"
    by (rule conjunct1)
  from a have c: "columns df = coords_cols"
    by (elim conjE)
  from a have "if set coords_cols \<subseteq> set (columns coords_file)
                  then df = project coords_cols (dropna coords_cols coords_file) else rows df = []"
    by (elim conjE) (simp only: sum.case)
  with s have d: "df = project coords_cols (dropna coords_cols coords_file)"
    by (simp only: if_True)
  show "\<exists>msgs df. load_noc_coords ''noc_coordinates.csv'' (Inr coords_file) = Inr (msgs, df) \<and>
      columns df = coords_cols \<and>
      map (\<lambda>r. map r coords_cols) (rows df) =
        [[Text ''USA'', Text ''United States'', Number 38, Number (-97)]]"
    using l c p unfolding d by (intro exI conjI)
next
  obtain msgs df where a:
    "load_noc_coords ''noc_coordinates.csv'' (Inl FileNotFoundError) = Inr (msgs, df) \<and>
      columns df = coords_cols \<and>
      (\<forall>r \<in> set (rows df). \<forall>c \<in> set coords_cols. r c \<noteq> NaN) \<and>
      (case (Inl FileNotFoundError :: py_error + dataframe) of
         Inl e \<Rightarrow> rows df = []
       | Inr t \<Rightarrow> if set coords_cols \<subseteq> set (columns t)
                  then df = project coords_cols (dropna coords_cols t) else rows df = [])"
    using load_noc_coords_total[of "''noc_coordinates.csv''" "Inl FileNotFoundError"]
    by (elim exE) (rule that)
  from a have l: "load_noc_coords ''noc_coordinates.csv'' (Inl FileNotFoundError) = Inr (msgs, df)"
    by (rule conjunct1)
  from a have c: "columns df = coords_cols"
    by (elim conjE)
  from a have d: "rows df = []"
    by (elim conjE) (simp only: sum.case)
  show "\<exists>msgs df. load_noc_coords ''noc_coordinates.csv'' (Inl FileNotFoundError) = Inr (msgs, df) \<and>
      columns df = coords_cols \<and> rows df = []"
    using l c d by (intro exI conjI)
qed

section \<open>The join with the coordinates\<close>

lemma case_list_nonempty:
  "(case xs of [] \<Rightarrow> a | y # ys \<Rightarrow> f (y # ys)) = (if xs = [] then a else f xs)"
  by (cases xs) simp_all

lemma merge_left_rows_of:
  assumes "merge_left key left right = Inr merged"
  shows "rows merged =
   concat (map (\<lambda>l. if filter (\<lambda>r. r key = l key) (rows right) = []
                      then [joined key right l (\<lambda>c. NaN)]
                      else map (joined key right l) (filter (\<lambda>r. r key = l key) (rows right)))
             (rows left))"
  using assms by (auto simp: merge_left_def case_list_nonempty split: if_splits)

lemma rows_merge_left:
  assumes "merge_left key left right = Inr merged"
  shows "j \<in> set (rows merged) \<longleftrightarrow>
   (\<exists>l \<in> set (rows left).
      (filter (\<lambda>r. r key = l key) (rows right) = [] \<and> j = joined key right l (\<lambda>c. NaN)) \<or>
      (\<exists>r \<in> set (rows right). r key = l key \<and> j = joined key right l r))"
  unfolding merge_left_rows_of[OF assms] set_concat set_map
  by (auto simp: filter_empty_conv)

lemma joined_metrics_cols:
  assumes "columns df_coords = coords_cols" and "col \<in> set metrics_cols"
  shows "joined ''noc'' df_coords l r col = l col"
  using assms by (auto simp: joined_def coords_cols_def metrics_cols_def)

lemma joined_coords_cols:
  assumes "columns df_coords = coords_cols"
  shows "joined ''noc'' df_coords l r ''country'' = r ''country''"
    and "joined ''noc'' df_coords l r ''latitude'' = r ''latitude''"
    and "joined ''noc'' df_coords l r ''longitude'' = r ''longitude''"
    and "joined ''noc'' df_coords l r ''noc'' = l ''noc''"
    and "joined ''noc'' df_coords l r ''Total_Medals'' = l ''Total_Medals''"
  using assms by (simp_all add: joined_def coords_cols_def)

lemma df_map_data_Some:
  "df_map_data metrics df_coords = Inr (Some out) \<longleftrightarrow>
   \<not> empty df_coords \<and> ''noc'' \<in> set (columns metrics) \<and>
   (\<exists>merged. merge_left ''noc'' (loc metrics (\<lambda>r. gt_zero (r ''Total_Medals''))) df_coords = Inr merged \<and>
      out = dropna [''latitude'', ''longitude''] merged)"
  by (auto simp: df_map_data_def split: sum.splits)

lemma rows_dropna_lat_lon:
  "j \<in> set (rows (dropna [''latitude'', ''longitude''] df)) \<longleftrightarrow>
   j \<in> set (rows df) \<and> j ''latitude'' \<noteq> NaN \<and> j ''longitude'' \<noteq> NaN"
  by (auto simp: dropna_def rows_loc notna_def)

text \<open>The columns of a tally, and its cells in the column \<open>Total_Medals\<close>.\<close>

lemma tally_columns: "metrics_by_noc df = Inr metrics \<Longrightarrow> columns metrics = metrics_cols"
  by (auto simp: metrics_by_noc_def agg_by_noc_def split: if_splits)

lemma tally_total_is_count:
  assumes "metrics_by_noc df = Inr metrics" and "m \<in> set (rows metrics)"
  shows "\<exists>n. m ''Total_Medals'' = Number (of_nat n)"
proof -
  from rows_metrics[OF assms] obtain k where
    "m = metrics_row k (map (\<lambda>r. r(''medal_present'' := Boolean (medal_present r)))
              (group_rows ''noc'' df k))" by blast
  then show ?thesis by (simp add: metrics_row_with_medal_present mk_row_def)
qed

lemma gt_zero_count: "gt_zero (Number (of_nat n)) \<longleftrightarrow> (\<exists>x. Number (of_nat n) = Number x \<and> 0 < x)"
  by simp

lemma returns_when_same_dtype:
  assumes cc: "columns df_coords = coords_cols" and mc: "columns metrics = metrics_cols"
    and same: "dtypes metrics ''noc'' = dtypes df_coords ''noc''"
    and ne: "rows df_coords \<noteq> []"
  shows "\<exists>out. df_map_data metrics df_coords = Inr (Some out)"
proof -
  have "\<not> key_conflict ''noc'' (loc metrics (\<lambda>r. gt_zero (r ''Total_Medals''))) df_coords"
    using same by (auto simp: key_conflict_def loc_def)
  moreover have "\<not> empty df_coords" using cc ne by (simp add: empty_def coords_cols_def)
  moreover have "''noc'' \<in> set (columns metrics)" using mc by (simp add: metrics_cols_def)
  ultimately show ?thesis by (simp add: df_map_data_def merge_left_def)
qed

lemma matched_row_kept:
  assumes cc: "columns df_coords = coords_cols"
    and out: "df_map_data metrics df_coords = Inr (Some out)"
    and m: "m \<in> set (rows metrics)"
    and pos: "m ''Total_Medals'' = Number x" "0 < x"
    and c: "c \<in> set (rows df_coords)"
    and key: "c ''noc'' = m ''noc''"
    and lat: "c ''latitude'' \<noteq> NaN" and lon: "c ''longitude'' \<noteq> NaN"
  shows "\<exists>j \<in> set (rows out). (\<forall>col \<in> set metrics_cols. j col = m col) \<and>
           j ''country'' = c ''country'' \<and> j ''latitude'' = c ''latitude'' \<and>
           j ''longitude'' = c ''longitude''"
proof -
  let ?left = "loc metrics (\<lambda>r. gt_zero (r ''Total_Medals''))"
  let ?j = "joined ''noc'' df_coords m c"
  from out obtain merged where mg: "merge_left ''noc'' ?left df_coords = Inr merged"
    and o: "out = dropna [''latitude'', ''longitude''] merged"
    unfolding df_map_data_Some by blast
  have "m \<in> set (rows ?left)" using m pos by (simp add: rows_loc)
  then have "?j \<in> set (rows merged)"
    unfolding rows_merge_left[OF mg] using c key by blast
  moreover have "?j ''latitude'' \<noteq> NaN" "?j ''longitude'' \<noteq> NaN"
    using lat lon by (simp_all add: joined_coords_cols[OF cc])
  ultimately have "?j \<in> set (rows out)"
    by (simp add: o rows_dropna_lat_lon)
  moreover have "\<forall>col \<in> set metrics_cols. ?j col = m col"
    by (simp add: joined_metrics_cols[OF cc])
  moreover have "?j ''country'' = c ''country''" "?j ''latitude'' = c ''latitude''"
    "?j ''longitude'' = c ''longitude''"
    by (simp_all add: joined_coords_cols[OF cc])
  ultimately show ?thesis by blast
qed

lemma map_row_sound:
  assumes cc: "columns df_coords = coords_cols"
    and tally: "metrics_by_noc df = Inr metrics"
    and out: "df_map_data metrics df_coords = Inr (Some out)"
    and j: "j \<in> set (rows out)"
  shows "\<exists>x. j ''Total_Medals'' = Number x \<and> 0 < x"
    and "\<exists>m \<in> set (rows metrics). \<forall>col \<in> set metrics_cols. j col = m col"
    and "\<exists>c \<in> set (rows df_coords). c ''noc'' = j ''noc'' \<and> j ''country'' = c ''country'' \<and>
           j ''latitude'' = c ''latitude'' \<and> j ''longitude'' = c ''longitude''"
proof -
  let ?left = "loc metrics (\<lambda>r. gt_zero (r ''Total_Medals''))"
  from out obtain merged where mg: "merge_left ''noc'' ?left df_coords = Inr merged"
    and o: "out = dropna [''latitude'', ''longitude''] merged"
    unfolding df_map_data_Some by blast
  from j o have jm: "j \<in> set (rows merged)" and lat: "j ''latitude'' \<noteq> NaN"
    by (simp_all add: rows_dropna_lat_lon)
  from jm obtain l where l: "l \<in> set (rows ?left)"
    and cases: "j = joined ''noc'' df_coords l (\<lambda>c. NaN) \<or>
      (\<exists>r \<in> set (rows df_coords). r ''noc'' = l ''noc'' \<and> j = joined ''noc'' df_coords l r)"
    unfolding rows_merge_left[OF mg] by blast
  from lat have "j \<noteq> joined ''noc'' df_coords l (\<lambda>c. NaN)"
    by (auto simp: joined_coords_cols[OF cc])
  with cases obtain r where r: "r \<in> set (rows df_coords)" "r ''noc'' = l ''noc''"
    and jr: "j = joined ''noc'' df_coords l r" by blast
  from l have lm: "l \<in> set (rows metrics)" and lp: "gt_zero (l ''Total_Medals'')"
    by (simp_all add: rows_loc)
  from tally_total_is_count[OF tally lm] obtain n where n: "l ''Total_Medals'' = Number (of_nat n)"
    by blast
  with lp have "0 < (of_nat n :: rat)" by simp
  with n show "\<exists>x. j ''Total_Medals'' = Number x \<and> 0 < x"
    by (simp add: jr joined_coords_cols[OF cc])
  show "\<exists>m \<in> set (rows metrics). \<forall>col \<in> set metrics_cols. j col = m col"
    using lm by (auto simp: jr joined_metrics_cols[OF cc])
  show "\<exists>c \<in> set (rows df_coords). c ''noc'' = j ''noc'' \<and> j ''country'' = c ''country'' \<and>
           j ''latitude'' = c ''latitude'' \<and> j ''longitude'' = c ''longitude''"
    using r by (auto simp: jr joined_coords_cols[OF cc])
qed

lemma unmatched_row_blank:
  assumes cc: "columns df_coords = coords_cols"
    and mg: "merge_left ''noc'' left df_coords = Inr merged"
    and j: "j \<in> set (rows merged)"
    and un: "\<forall>c \<in> set (rows df_coords). c ''noc'' \<noteq> j ''noc''"
  shows "j ''country'' = NaN \<and> j ''latitude'' = NaN \<and> j ''longitude'' = NaN"
proof -
  from j obtain l where
    cases: "j = joined ''noc'' df_coords l (\<lambda>c. NaN) \<or>
      (\<exists>r \<in> set (rows df_coords). r ''noc'' = l ''noc'' \<and> j = joined ''noc'' df_coords l r)"
    unfolding rows_merge_left[OF mg] by blast
  have "\<not> (\<exists>r \<in> set (rows df_coords). r ''noc'' = l ''noc'' \<and> j = joined ''noc'' df_coords l r)"
    using un by (auto simp: joined_coords_cols[OF cc])
  with cases have "j = joined ''noc'' df_coords l (\<lambda>c. NaN)" by blast
  then show ?thesis by (simp add: joined_coords_cols[OF cc])
qed

lemma left_row_kept:
  assumes cc: "columns df_coords = coords_cols"
    and mg: "merge_left ''noc'' left df_coords = Inr merged"
    and l: "l \<in> set (rows left)"
  shows "\<exists>j \<in> set (rows merged). \<forall>col \<in> set metrics_cols. j col = l col"
proof (cases "filter (\<lambda>r. r ''noc'' = l ''noc'') (rows df_coords) = []")
  case True
  with l have "joined ''noc'' df_coords l (\<lambda>c. NaN) \<in> set (rows merged)"
    unfolding rows_merge_left[OF mg] by blast
  then show ?thesis by (rule bexI[rotated]) (simp add: joined_metrics_cols[OF cc])
next
  case False
  then obtain r where "r \<in> set (rows df_coords)" "r ''noc'' = l ''noc''"
    by (auto simp: filter_empty_conv)
  with l have "joined ''noc'' df_coords l r \<in> set (rows merged)"
    unfolding rows_merge_left[OF mg] by blast
  then show ?thesis by (rule bexI[rotated]) (simp add: joined_metrics_cols[OF cc])
qed

text \<open>
  C7. For the tally of a filtered table and a coordinate table with its four columns:
  when the coordinate table has rows and the two \<open>noc\<close> columns have one dtype, the table
  for the map is made (pandas raises when a column of strings meets a column of
  numbers). When it is made, every row of the tally whose \<open>Total_Medals\<close> is a number
  above zero and whose \<open>noc\<close> has a coordinate row with both coordinates is in it, with
  that row's country and coordinates; and every row of it has a \<open>Total_Medals\<close> above
  zero (no row with \<open>Total_Medals <= 0\<close> reaches the map), is a row of the tally, and
  carries the country and coordinates of a coordinate row of its \<open>noc\<close>. In the join
  itself, of any table, every row given is kept, and a joined row whose \<open>noc\<close> is not in
  the coordinate table has no country and no coordinate.
\<close>

theorem join_resolver:
  assumes cc: "columns df_coords = coords_cols" and tally: "metrics_by_noc df = Inr metrics"
  shows
    "(dtypes metrics ''noc'' = dtypes df_coords ''noc'' \<and> rows df_coords \<noteq> [] \<longrightarrow>
        (\<exists>out. df_map_data metrics df_coords = Inr (Some out))) \<and>
     (\<forall>out. df_map_data metrics df_coords = Inr (Some out) \<longrightarrow>
        (\<forall>m \<in> set (rows metrics). \<forall>c \<in> set (rows df_coords).
           (\<exists>x. m ''Total_Medals'' = Number x \<and> 0 < x) \<and> c ''noc'' = m ''noc'' \<and>
           c ''latitude'' \<noteq> NaN \<and> c ''longitude'' \<noteq> NaN \<longrightarrow>
           (\<exists>j \<in> set (rows out). (\<forall>col \<in> set metrics_cols. j col = m col) \<and>
              j ''country'' = c ''country'' \<and> j ''latitude'' = c ''latitude'' \<and>
              j ''longitude'' = c ''longitude'')) \<and>
        (\<forall>j \<in> set (rows out).
           (\<exists>x. j ''Total_Medals'' = Number x \<and> 0 < x) \<and>
           (\<exists>m \<in> set (rows metrics). \<forall>col \<in> set metrics_cols. j col = m col) \<and>
           (\<exists>c \<in> set (rows df_coords). c ''noc'' = j ''noc'' \<and> j ''country'' = c ''country'' \<and>
              j ''latitude'' = c ''latitude'' \<and> j ''longitude'' = c ''longitude''))) \<and>
     (\<forall>merged. merge_left ''noc'' left df_coords = Inr merged \<longrightarrow>
        (\<forall>l \<in> set (rows left). \<exists>j \<in> set (rows merged). \<forall>col \<in> set metrics_cols. j col = l col) \<and>
        (\<forall>j \<in> set (rows merged).
           (\<forall>c \<in> set (rows df_coords). c ''noc'' \<noteq> j ''noc'') \<longrightarrow>
           j ''country'' = NaN \<and> j ''latitude'' = NaN \<and> j ''longitude'' = NaN))"
proof (intro conjI allI impI ballI)
  assume "dtypes metrics ''noc'' = dtypes df_coords ''noc'' \<and> rows df_coords \<noteq> []"
  then show "\<exists>out. df_map_data metrics df_coords = Inr (Some out)"
    using returns_when_same_dtype[OF cc tally_columns[OF tally]] by blast
next
  fix out m c
  assume "df_map_data metrics df_coords = Inr (Some out)" "m \<in> set (rows metrics)"
    "c \<in> set (rows df_coords)"
    "(\<exists>x. m ''Total_Medals'' = Number x \<and> 0 < x) \<and> c ''noc'' = m ''noc'' \<and>
           c ''latitude'' \<noteq> NaN \<and> c ''longitude'' \<noteq> NaN"
  then show "\<exists>j \<in> set (rows out). (\<forall>col \<in> set metrics_cols. j col = m col) \<and>
              j ''country'' = c ''country'' \<and> j ''latitude'' = c ''latitude'' \<and>
              j ''longitude'' = c ''longitude''"
    using matched_row_kept[OF cc] by blast
next
  fix out j
  assume "df_map_data metrics df_coords = Inr (Some out)" and "j \<in> set (rows out)"
  note sound = map_row_sound[OF cc tally this]
  show "\<exists>x. j ''Total_Medals'' = Number x \<and> 0 < x" by (rule sound(1))
  show "\<exists>m \<in> set (rows metrics). \<forall>col \<in> set metrics_cols. j col = m col" by (rule sound(2))
  show "\<exists>c \<in> set (rows df_coords). c ''noc'' = j ''noc'' \<and> j ''country'' = c ''country'' \<and>
              j ''latitude'' = c ''latitude'' \<and> j ''longitude'' = c ''longitude''" by (rule sound(3))
next
  fix merged l
  assume "merge_left ''noc'' left df_coords = Inr merged" "l \<in> set (rows left)"
  then show "\<exists>j \<in> set (rows merged). \<forall>col \<in> set metrics_cols. j col = l col"
    by (rule left_row_kept[OF cc])
next
  fix merged j
  assume "merge_left ''noc'' left df_coords = Inr merged" "j \<in> set (rows merged)"
    and "\<forall>c \<in> set (rows df_coords). c ''noc'' \<noteq> j ''noc''"
  note blank = unmatched_row_blank[OF cc this]
  from blank show "j ''country'' = NaN" by (rule conjunct1)
  from blank show "j ''latitude'' = NaN" by simp
  from blank show "j ''longitude'' = NaN" by simp
qed

lemma map_group_keys:
  "group_keys ''noc'' (with_medal_present map_df) = [Text ''FRA'', Text ''GER'', Text ''USA'']"
  by (simp add: group_keys_def with_medal_present_def setitem_def map_df_def
      athlete_A_def athlete_B_def athlete_C_def athlete_F_def mk_row_def notna_def unique_def
      sort_cells_def)

lemma map_metrics_rows:
  "rows map_metrics =
     map (\<lambda>k. metrics_row k (group_rows ''noc'' (with_medal_present map_df) k))
       [Text ''FRA'', Text ''GER'', Text ''USA'']"
  by (simp add: map_metrics_def agg_by_noc_def map_group_keys)

lemma map_tally_totals:
  "map (\<lambda>m. (m ''noc'', m ''Total_Medals'')) (rows map_metrics) =
     [(Text ''FRA'', Number 1), (Text ''GER'', Number 0), (Text ''USA'', Number 1)]"
  unfolding map_metrics_rows group_rows_with_medal_present metrics_row_with_medal_present
  by (simp add: mk_row_def group_rows_def map_df_def athlete_A_def athlete_B_def athlete_C_def
      athlete_F_def medal_present_def notna_def cell_ne_def cell_eq_def)

lemma ger_tally_in_metrics: "ger_tally \<in> set (rows map_metrics)"
  by (simp add: map_metrics_rows ger_tally_def)

lemma ger_tally_cells: "ger_tally ''noc'' = Text ''GER''" "ger_tally ''Total_Medals'' = Number 0"
  unfolding ger_tally_def group_rows_with_medal_present metrics_row_with_medal_present
  by (simp_all add: mk_row_def group_rows_def map_df_def athlete_A_def athlete_B_def athlete_C_def
      athlete_F_def medal_present_def notna_def cell_ne_def cell_eq_def)

lemma coords_file_cells:
  "coords_USA ''noc'' = Text ''USA''" "coords_USA ''country'' = Text ''United States''"
  "coords_USA ''latitude'' = Number 38" "coords_USA ''longitude'' = Number (-97)"
  "coords_FRA ''noc'' = Text ''FRA''" "coords_FRA ''country'' = Text ''France''"
  "coords_FRA ''latitude'' = NaN" "coords_FRA ''longitude'' = Number 2"
  "coords_GER ''noc'' = Text ''GER''" "coords_GER ''country'' = Text ''Germany''"
  "coords_GER ''latitude'' = Number 51" "coords_GER ''longitude'' = Number 10"
  by (simp_all add: coords_USA_def coords_FRA_def coords_GER_def mk_row_def)

lemma map_coords_rows:
  "rows map_coords = [\<lambda>c. if c \<in> set coords_cols then coords_USA c else NaN,
                      \<lambda>c. if c \<in> set coords_cols then coords_GER c else NaN]"
  by (simp add: map_coords_def project_def dropna_def loc_def notna_def coords_file_cells
      coords_cols_def)

lemma map_dtypes:
  "dtypes map_metrics ''noc'' = Object_dtype" "dtypes map_coords ''noc'' = Object_dtype"
  by (simp_all add: map_metrics_def agg_by_noc_def with_medal_present_def setitem_def map_df_def
      olympics_dtypes_def map_coords_def project_def dropna_def loc_def coords_dtypes_def)


lemma map_metrics_positive:
  "rows (loc map_metrics (\<lambda>r. gt_zero (r ''Total_Medals''))) =
     [metrics_row (Text ''FRA'') (group_rows ''noc'' (with_medal_present map_df) (Text ''FRA'')),
      metrics_row (Text ''USA'') (group_rows ''noc'' (with_medal_present map_df) (Text ''USA''))]"
proof -
  have t: "map (\<lambda>m. m ''Total_Medals'') (rows map_metrics) = [Number 1, Number 0, Number 1]"
    using map_tally_totals[THEN arg_cong, of "map snd"] by (simp add: comp_def)
  then show ?thesis
    by (simp add: rows_loc map_metrics_rows)
qed


lemma metrics_row_noc: "metrics_row k g ''noc'' = k"
  by (simp add: metrics_row_def mk_row_def)

lemma map_coords_columns: "columns map_coords = coords_cols"
  by (simp add: map_coords_def project_def)

lemma map_tally: "metrics_by_noc map_df = Inr map_metrics"
  by (simp add: metrics_by_noc_def map_metrics_def map_df_def essential_cols_def)

lemma usa_total:
  "metrics_row (Text ''USA'') (group_rows ''noc'' (with_medal_present map_df) (Text ''USA''))
     ''Total_Medals'' = Number 1"
  using map_tally_totals by (simp add: map_metrics_rows)

lemma map_merged_rows:
  assumes "merge_left ''noc'' (loc map_metrics (\<lambda>r. gt_zero (r ''Total_Medals''))) map_coords = Inr merged"
  shows "rows merged =
    [joined ''noc'' map_coords
       (metrics_row (Text ''FRA'') (group_rows ''noc'' (with_medal_present map_df) (Text ''FRA'')))
       (\<lambda>c. NaN),
     joined ''noc'' map_coords
       (metrics_row (Text ''USA'') (group_rows ''noc'' (with_medal_present map_df) (Text ''USA'')))
       (\<lambda>c. if c \<in> set coords_cols then coords_USA c else NaN)]"
  unfolding merge_left_rows_of[OF assms] map_metrics_positive map_coords_rows
  by (simp add: metrics_row_noc coords_cols_def coords_file_cells)

theorem join_resolver_witness:
  "columns map_coords = coords_cols \<and> metrics_by_noc map_df = Inr map_metrics \<and>
   dtypes map_metrics ''noc'' = dtypes map_coords ''noc'' \<and> rows map_coords \<noteq> [] \<and>
   df_map_data map_metrics map_coords = Inr (Some map_out) \<and>
   list_all (\<lambda>j. \<exists>x. j ''Total_Medals'' = Number x \<and> 0 < x) (rows map_out) \<and>
   map (\<lambda>m. (m ''noc'', m ''Total_Medals'')) (rows map_metrics) =
     [(Text ''FRA'', Number 1), (Text ''GER'', Number 0), (Text ''USA'', Number 1)] \<and>
   map (\<lambda>c. (c ''noc'', c ''latitude'', c ''longitude'')) (rows map_coords) =
     [(Text ''USA'', Number 38, Number (-97)), (Text ''GER'', Number 51, Number 10)] \<and>
   map (\<lambda>j. (j ''noc'', j ''Total_Medals'', j ''country'', j ''latitude'', j ''longitude''))
     (rows map_out) =
     [(Text ''USA'', Number 1, Text ''United States'', Number 38, Number (-97))]"
proof -
  note cc = map_coords_columns and tally = map_tally
  have same: "dtypes map_metrics ''noc'' = dtypes map_coords ''noc''" by (simp add: map_dtypes)
  have ne: "rows map_coords \<noteq> []" by (simp add: map_coords_rows)
  note jr = join_resolver[OF cc tally, of map_df]
  from jr have "dtypes map_metrics ''noc'' = dtypes map_coords ''noc'' \<and> rows map_coords \<noteq> [] \<longrightarrow>
        (\<exists>out. df_map_data map_metrics map_coords = Inr (Some out))"
    by (rule conjunct1)
  with same ne obtain out where o: "df_map_data map_metrics map_coords = Inr (Some out)"
    by blast
  then have e: "df_map_data map_metrics map_coords = Inr (Some map_out)"
    by (simp add: map_out_def)
  from jr have "\<forall>out. df_map_data map_metrics map_coords = Inr (Some out) \<longrightarrow>
        (\<forall>m \<in> set (rows map_metrics). \<forall>c \<in> set (rows map_coords).
           (\<exists>x. m ''Total_Medals'' = Number x \<and> 0 < x) \<and> c ''noc'' = m ''noc'' \<and>
           c ''latitude'' \<noteq> NaN \<and> c ''longitude'' \<noteq> NaN \<longrightarrow>
           (\<exists>j \<in> set (rows out). (\<forall>col \<in> set metrics_cols. j col = m col) \<and>
              j ''country'' = c ''country'' \<and> j ''latitude'' = c ''latitude'' \<and>
              j ''longitude'' = c ''longitude'')) \<and>
        (\<forall>j \<in> set (rows out).
           (\<exists>x. j ''Total_Medals'' = Number x \<and> 0 < x) \<and>
           (\<exists>m \<in> set (rows map_metrics). \<forall>col \<in> set metrics_cols. j col = m col) \<and>
           (\<exists>c \<in> set (rows map_coords). c ''noc'' = j ''noc'' \<and> j ''country'' = c ''country'' \<and>
              j ''latitude'' = c ''latitude'' \<and> j ''longitude'' = c ''longitude''))"
    by (elim conjE)
  with e have "\<forall>j \<in> set (rows map_out). \<exists>x. j ''Total_Medals'' = Number x \<and> 0 < x"
    by blast
  then have pos: "list_all (\<lambda>j. \<exists>x. j ''Total_Medals'' = Number x \<and> 0 < x) (rows map_out)"
    by (simp only: list_all_iff)
  from e obtain merged where
    mg: "merge_left ''noc'' (loc map_metrics (\<lambda>r. gt_zero (r ''Total_Medals''))) map_coords = Inr merged"
    and mo: "map_out = dropna [''latitude'', ''longitude''] merged"
    unfolding df_map_data_Some by blast
  have out_rows: "map (\<lambda>j. (j ''noc'', j ''Total_Medals'', j ''country'', j ''latitude'', j ''longitude''))
     (rows map_out) =
     [(Text ''USA'', Number 1, Text ''United States'', Number 38, Number (-97))]"
    unfolding mo dropna_def rows_loc map_merged_rows[OF mg]
    by (simp add: joined_coords_cols[OF cc] notna_def usa_total metrics_row_noc coords_cols_def
        coords_file_cells)
  have coords: "map (\<lambda>c. (c ''noc'', c ''latitude'', c ''longitude'')) (rows map_coords) =
     [(Text ''USA'', Number 38, Number (-97)), (Text ''GER'', Number 51, Number 10)]"
    by (simp add: map_coords_rows coords_cols_def coords_file_cells)
  from cc tally same ne e pos map_tally_totals coords out_rows show ?thesis
    by (intro conjI)
qed

text \<open>The join raises when the country codes of the coordinate file are numbers.\<close>

lemma numeric_noc_raises: "df_map_data map_metrics numeric_noc_coords = Inl ValueError"
proof -
  have "rows (loc map_metrics (\<lambda>r. gt_zero (r ''Total_Medals''))) \<noteq> []"
    by (simp add: map_metrics_positive)
  moreover have "has_text ''noc'' (loc map_metrics (\<lambda>r. gt_zero (r ''Total_Medals'')))"
    by (simp add: has_text_def map_metrics_positive metrics_row_noc)
  moreover have "dtypes (loc map_metrics (\<lambda>r. gt_zero (r ''Total_Medals''))) ''noc'' = Object_dtype"
    by (simp add: loc_def map_dtypes)
  moreover have "columns map_metrics = metrics_cols"
    by (simp add: map_metrics_def agg_by_noc_def)
  ultimately show ?thesis
    by (simp add: df_map_data_def merge_left_def key_conflict_def numeric_noc_coords_def empty_def
        coords_cols_def metrics_cols_def)
qed

section \<open>The mean of a numeric column by group\<close>

lemma mean_step_fold:
  assumes "\<not> list_ex is_text cs"
  shows "foldl (mean_step ar) (a, n) cs =
         (foldl (fadd ar) a (present_values cs), n + length (present_values cs))"
  using assms
proof (induction cs arbitrary: a n)
  case Nil
  then show ?case by (simp add: present_values_def)
next
  case (Cons c cs)
  then show ?case by (cases c) (simp_all add: present_values_def notna_def)
qed

lemma series_mean_is_mean_of_present:
  assumes "\<not> list_ex is_text cs"
  shows "series_mean ar cs = mean_of_present ar cs"
  by (simp add: series_mean_def mean_of_present_def mean_step_fold[OF assms])

lemma mean_of_present_exact:
  "mean_of_present exact_arith cs =
     (if present_values cs = [] then NaN
      else Number (sum_list (present_values cs) / of_nat (length (present_values cs))))"
proof -
  have "foldl (\<lambda>acc x. acc + x) a vs = a + sum_list vs" for a :: rat and vs
    by (induction vs arbitrary: a) simp_all
  then show ?thesis by (simp add: mean_of_present_def exact_arith_def)
qed

lemma no_text_in_numeric:
  assumes "is_numeric_dtype df c" and "well_typed df c"
  shows "\<not> list_ex (\<lambda>r. is_text (r c)) (rows df)"
  using assms by (simp add: is_numeric_dtype_def well_typed_def)

lemma set_insort_cell: "set (insort_cell c cs) = insert c (set cs)"
  by (induction cs) auto

lemma set_sort_cells: "set (sort_cells cs) = set cs"
  by (induction cs) (simp_all add: sort_cells_def set_insort_cell)

lemma set_group_keys:
  "set (group_keys key df) = {c. c \<noteq> NaN \<and> (\<exists>r \<in> set (rows df). r key = c)}"
  by (auto simp: group_keys_def set_sort_cells set_unique notna_def)

lemma group_rows_loc_isin:
  assumes "k \<in> set (group_keys key (loc df (\<lambda>r. isin (r key) tops)))"
  shows "group_rows key (loc df (\<lambda>r. isin (r key) tops)) k = group_rows key df k"
proof -
  from assms have "isin k tops" by (auto simp: set_group_keys rows_loc)
  then show ?thesis
    by (auto simp: group_rows_def rows_loc intro: filter_cong)
qed

lemma group_mean_row:
  assumes ne: "key \<noteq> field" and nt: "\<not> list_ex (\<lambda>r. is_text (r field)) (rows df)"
    and g: "g \<in> set (rows (group_mean ar key field df))"
  shows "g field = mean_of_present ar (map (\<lambda>r. r field) (filter (\<lambda>r. r key = g key) (rows df)))"
proof -
  from g obtain k where gk: "g = mk_row [(key, k), (field, series_mean ar (map (\<lambda>r. r field) (group_rows key df k)))]"
    by (auto simp: group_mean_def)
  have k: "g key = k" by (simp add: gk mk_row_def)
  have "\<not> list_ex is_text (map (\<lambda>r. r field) (group_rows key df k))"
    using nt by (auto simp: list_ex_iff group_rows_def)
  then have "series_mean ar (map (\<lambda>r. r field) (group_rows key df k)) =
             mean_of_present ar (map (\<lambda>r. r field) (group_rows key df k))"
    by (rule series_mean_is_mean_of_present)
  then show ?thesis
    unfolding k using ne by (simp add: gk mk_row_def group_rows_def)
qed

lemma group_mean_has_every_key:
  assumes r: "r \<in> set (rows df)" and k: "r key \<noteq> NaN"
  shows "\<exists>g \<in> set (rows (group_mean ar key field df)). g key = r key"
proof -
  from r k have "r key \<in> set (group_keys key df)" by (auto simp: set_group_keys)
  then have "mk_row [(key, r key), (field, series_mean ar (map (\<lambda>x. x field) (group_rows key df (r key))))]
             \<in> set (rows (group_mean ar key field df))"
    by (simp add: group_mean_def)
  then show ?thesis by (rule bexI[rotated]) (simp add: mk_row_def)
qed

lemma set_insert_desc: "set (insert_desc c x ys) = insert x (set ys)"
  by (induction ys) auto

lemma set_foldr_insert_desc: "set (foldr (insert_desc c) rs []) = set rs"
  by (induction rs) (simp_all add: set_insert_desc)

lemma length_insert_desc: "length (insert_desc c x ys) = Suc (length ys)"
  by (induction ys) simp_all

lemma length_foldr_insert_desc: "length (foldr (insert_desc c) rs []) = length rs"
  by (induction rs) (simp_all add: length_insert_desc)

lemma set_sort_values_desc: "set (sort_values_desc c rs) = set rs"
  by (auto simp: sort_values_desc_def set_foldr_insert_desc)

lemma top_disciplines_when_few:
  assumes "length (group_keys ''discipline'' df) \<le> 20"
  shows "set (top_disciplines_by_athletes df) = set (group_keys ''discipline'' df)"
proof -
  let ?counts = "rows (group_nunique ''discipline'' ''name'' ''athlete_count'' df)"
  have len: "length ?counts = length (group_keys ''discipline'' df)"
    by (simp add: group_nunique_def)
  have "take 20 (foldr (insert_desc ''athlete_count'') ?counts []) =
        foldr (insert_desc ''athlete_count'') ?counts []"
    using assms len by (simp add: length_foldr_insert_desc)
  then have "set (top_disciplines_by_athletes df) = (\<lambda>r. r ''discipline'') ` set ?counts"
    by (simp add: top_disciplines_by_athletes_def nlargest_def set_foldr_insert_desc)
  also have "\<dots> = set (group_keys ''discipline'' df)"
    by (auto simp: group_nunique_def mk_row_def image_iff)
  finally show ?thesis .
qed

lemma age_by_discipline_table:
  assumes t: "age_by_discipline ar sort_values df = Inr (Some t)"
  shows "is_numeric_dtype df ''age''"
    and "rows t = sort_values (rows (group_mean ar ''discipline'' ''age''
           (loc df (\<lambda>r. isin (r ''discipline'') (top_disciplines_by_athletes df)))))"
  using t by (auto simp: age_by_discipline_def Let_def split: if_splits)

lemma age_by_discipline_row:
  assumes perm: "\<forall>rs. set (sort_values rs) = set rs"
    and wt: "well_typed df ''age''"
    and t: "age_by_discipline ar sort_values df = Inr (Some t)"
    and g: "g \<in> set (rows t)"
  shows "g ''age'' = mean_of_present ar
           (map (\<lambda>r. r ''age'') (filter (\<lambda>r. r ''discipline'' = g ''discipline'') (rows df)))"
proof -
  let ?top = "top_disciplines_by_athletes df"
  let ?sel = "loc df (\<lambda>r. isin (r ''discipline'') ?top)"
  note tab = age_by_discipline_table[OF t]
  have nt: "\<not> list_ex (\<lambda>r. is_text (r ''age'')) (rows df)"
    using tab(1) wt by (rule no_text_in_numeric)
  from g tab(2) perm have g': "g \<in> set (rows (group_mean ar ''discipline'' ''age'' ?sel))" by simp
  then obtain k where k: "k \<in> set (group_keys ''discipline'' ?sel)"
    and gk: "g = mk_row [(''discipline'', k), (''age'', series_mean ar (map (\<lambda>r. r ''age'') (group_rows ''discipline'' ?sel k)))]"
    by (auto simp: group_mean_def)
  have gd: "g ''discipline'' = k" by (simp add: gk mk_row_def)
  have nt': "\<not> list_ex (\<lambda>r. is_text (r ''age'')) (rows ?sel)"
    using nt by (auto simp: list_ex_iff rows_loc)
  have "g ''age'' = mean_of_present ar (map (\<lambda>r. r ''age'') (filter (\<lambda>r. r ''discipline'' = g ''discipline'') (rows ?sel)))"
    using group_mean_row[OF _ nt' g'] by simp
  also have "filter (\<lambda>r. r ''discipline'' = g ''discipline'') (rows ?sel) =
             filter (\<lambda>r. r ''discipline'' = g ''discipline'') (rows df)"
    using group_rows_loc_isin[OF k] unfolding gd by (simp add: group_rows_def)
  finally show ?thesis .
qed

lemma age_by_discipline_has_top:
  assumes perm: "\<forall>rs. set (sort_values rs) = set rs"
    and t: "age_by_discipline ar sort_values df = Inr (Some t)"
    and r: "r \<in> set (rows df)" and k: "r ''discipline'' \<noteq> NaN"
    and top: "isin (r ''discipline'') (top_disciplines_by_athletes df)"
  shows "\<exists>g \<in> set (rows t). g ''discipline'' = r ''discipline''"
proof -
  let ?sel = "loc df (\<lambda>r. isin (r ''discipline'') (top_disciplines_by_athletes df))"
  from r top have "r \<in> set (rows ?sel)" by (simp add: rows_loc)
  from group_mean_has_every_key[OF this k, of ar "''age''"]
  show ?thesis using age_by_discipline_table(2)[OF t] perm by simp
qed

lemma age_by_discipline_has_all_when_few:
  assumes perm: "\<forall>rs. set (sort_values rs) = set rs"
    and t: "age_by_discipline ar sort_values df = Inr (Some t)"
    and few: "length (group_keys ''discipline'' df) \<le> 20"
    and r: "r \<in> set (rows df)" and k: "r ''discipline'' \<noteq> NaN"
  shows "\<exists>g \<in> set (rows t). g ''discipline'' = r ''discipline''"
proof -
  from r k have "r ''discipline'' \<in> set (group_keys ''discipline'' df)"
    by (auto simp: set_group_keys)
  then have "isin (r ''discipline'') (top_disciplines_by_athletes df)"
    by (simp add: isin_def top_disciplines_when_few[OF few])
  with perm t r k show ?thesis by (rule age_by_discipline_has_top)
qed

lemma age_by_discipline_warns:
  "\<not> is_numeric_dtype df ''age'' \<Longrightarrow> age_by_discipline ar sort_values df = Inr None"
  by (simp add: age_by_discipline_def)

text \<open>
  C8. The mean of a numeric column by group, as pandas' pass computes it, is in every
  group the mean of the cells of the group that are present (the missing value when none
  is present): a missing cell enters neither the sum nor the divisor, so that a column
  and the same column with its missing cells removed have the same mean. The grouped
  table has a row for every key that is present in the table. This holds for every
  numeric column and every key; the scripts take this mean of one column only, \<open>age\<close> by
  \<open>discipline\<close> (height and weight are plotted, not averaged). \<^verbatim>\<open>age_by_discipline\<close> is
  built when the columns are there and \<open>age\<close> is numeric (otherwise a warning is shown and
  no mean is taken); it has a row for every discipline among the twenty with most
  athletes, so for every discipline when there are at most twenty, and each of its rows
  carries the mean of the present ages of all the rows of its discipline in the filtered
  table. In arithmetic without rounding that mean is the sum of the present values
  divided by their number.
\<close>

theorem grouped_mean_skips_null:
  "(key \<noteq> field \<and> is_numeric_dtype df field \<and> well_typed df field \<longrightarrow>
      (\<forall>g \<in> set (rows (group_mean ar key field df)).
         g field = mean_of_present ar (map (\<lambda>r. r field) (filter (\<lambda>r. r key = g key) (rows df)))) \<and>
      (\<forall>r \<in> set (rows df). r key \<noteq> NaN \<longrightarrow>
         (\<exists>g \<in> set (rows (group_mean ar key field df)). g key = r key))) \<and>
   (''age'' \<in> set (columns df) \<and> is_numeric_dtype df ''age'' \<and> ''discipline'' \<in> set (columns df) \<and>
    ''name'' \<in> set (columns df) \<longrightarrow>
      (\<exists>t. age_by_discipline ar sort_values df = Inr (Some t))) \<and>
   (\<not> is_numeric_dtype df ''age'' \<longrightarrow> age_by_discipline ar sort_values df = Inr None) \<and>
   ((\<forall>rs. set (sort_values rs) = set rs) \<and> well_typed df ''age'' \<and>
    age_by_discipline ar sort_values df = Inr (Some t) \<longrightarrow>
      (\<forall>g \<in> set (rows t).
         g ''age'' = mean_of_present ar
           (map (\<lambda>r. r ''age'') (filter (\<lambda>r. r ''discipline'' = g ''discipline'') (rows df)))) \<and>
      (\<forall>r \<in> set (rows df).
         r ''discipline'' \<noteq> NaN \<and> isin (r ''discipline'') (top_disciplines_by_athletes df) \<longrightarrow>
         (\<exists>g \<in> set (rows t). g ''discipline'' = r ''discipline'')) \<and>
      (length (group_keys ''discipline'' df) \<le> 20 \<longrightarrow>
         (\<forall>r \<in> set (rows df). r ''discipline'' \<noteq> NaN \<longrightarrow>
            (\<exists>g \<in> set (rows t). g ''discipline'' = r ''discipline'')))) \<and>
   mean_of_present ar (filter (\<lambda>c. c \<noteq> NaN) cs) = mean_of_present ar cs \<and>
   mean_of_present exact_arith cs =
     (if present_values cs = [] then NaN
      else Number (sum_list (present_values cs) / of_nat (length (present_values cs)))) \<and>
   length (present_values cs) = length (filter (\<lambda>c. c \<noteq> NaN) cs)"
proof (intro conjI impI)
  assume a: "key \<noteq> field \<and> is_numeric_dtype df field \<and> well_typed df field"
  then have nt: "\<not> list_ex (\<lambda>r. is_text (r field)) (rows df)"
    by (simp add: no_text_in_numeric)
  from a nt show "\<forall>g \<in> set (rows (group_mean ar key field df)).
         g field = mean_of_present ar (map (\<lambda>r. r field) (filter (\<lambda>r. r key = g key) (rows df)))"
    by (simp add: group_mean_row)
  show "\<forall>r \<in> set (rows df). r key \<noteq> NaN \<longrightarrow>
         (\<exists>g \<in> set (rows (group_mean ar key field df)). g key = r key)"
    by (simp add: group_mean_has_every_key)
next
  assume "''age'' \<in> set (columns df) \<and> is_numeric_dtype df ''age'' \<and>
          ''discipline'' \<in> set (columns df) \<and> ''name'' \<in> set (columns df)"
  then show "\<exists>t. age_by_discipline ar sort_values df = Inr (Some t)"
    by (simp add: age_by_discipline_def Let_def)
next
  assume "\<not> is_numeric_dtype df ''age''"
  then show "age_by_discipline ar sort_values df = Inr None"
    by (rule age_by_discipline_warns)
next
  assume a: "(\<forall>rs. set (sort_values rs) = set rs) \<and> well_typed df ''age'' \<and>
    age_by_discipline ar sort_values df = Inr (Some t)"
  then have perm: "\<forall>rs. set (sort_values rs) = set rs" and wt: "well_typed df ''age''"
    and t: "age_by_discipline ar sort_values df = Inr (Some t)" by simp_all
  show "\<forall>g \<in> set (rows t).
         g ''age'' = mean_of_present ar
           (map (\<lambda>r. r ''age'') (filter (\<lambda>r. r ''discipline'' = g ''discipline'') (rows df)))"
    using age_by_discipline_row[OF perm wt t] by simp
  show "\<forall>r \<in> set (rows df).
         r ''discipline'' \<noteq> NaN \<and> isin (r ''discipline'') (top_disciplines_by_athletes df) \<longrightarrow>
         (\<exists>g \<in> set (rows t). g ''discipline'' = r ''discipline'')"
    using age_by_discipline_has_top[OF perm t] by simp
  assume few: "length (group_keys ''discipline'' df) \<le> 20"
  show "\<forall>r \<in> set (rows df). r ''discipline'' \<noteq> NaN \<longrightarrow>
            (\<exists>g \<in> set (rows t). g ''discipline'' = r ''discipline'')"
    using age_by_discipline_has_all_when_few[OF perm t few] by simp
next
  have notna: "notna = (\<lambda>c. c \<noteq> NaN)" by (simp add: fun_eq_iff notna_def)
  show "mean_of_present ar (filter (\<lambda>c. c \<noteq> NaN) cs) = mean_of_present ar cs"
    by (simp add: mean_of_present_def present_values_def notna)
  show "mean_of_present exact_arith cs =
     (if present_values cs = [] then NaN
      else Number (sum_list (present_values cs) / of_nat (length (present_values cs))))"
    by (rule mean_of_present_exact)
  show "length (present_values cs) = length (filter (\<lambda>c. c \<noteq> NaN) cs)"
    by (simp add: present_values_def notna)
qed

lemma example_guard:
  "''age'' \<in> set (columns example_df)" "''discipline'' \<in> set (columns example_df)"
  "''name'' \<in> set (columns example_df)" "is_numeric_dtype example_df ''age''"
  by (simp_all add: example_df_def essential_cols_def is_numeric_dtype_def olympics_dtypes_def)

lemma example_ages_hold_no_string: "well_typed example_df ''age''"
  by (simp add: well_typed_def example_df_def athlete_A_def athlete_B_def athlete_C_def mk_row_def)

lemma example_disciplines:
  "group_keys ''discipline'' example_df = [Text ''Marathon'', Text ''Swimming'']"
  by (simp add: group_keys_def example_df_def athlete_A_def athlete_B_def athlete_C_def
      mk_row_def notna_def unique_def sort_cells_def)

lemma example_ages:
  "map (\<lambda>r. r ''age'') (filter (\<lambda>r. r ''discipline'' = Text ''Swimming'') (rows example_df)) =
     [Number 24, NaN]"
  "map (\<lambda>r. r ''age'') (filter (\<lambda>r. r ''discipline'' = Text ''Marathon'') (rows example_df)) =
     [Number 30]"
  by (simp_all add: example_df_def athlete_A_def athlete_B_def athlete_C_def mk_row_def)

lemma example_means:
  "mean_of_present exact_arith [Number 24, NaN] = Number 24"
  "mean_of_present exact_arith [Number 30] = Number 30"
  by (simp_all add: mean_of_present_def present_values_def notna_def exact_arith_def)

theorem grouped_mean_skips_null_witness:
  "(\<forall>rs. set (sort_values_desc ''age'' rs) = set rs) \<and>
   well_typed example_df ''age'' \<and>
   length (group_keys ''discipline'' example_df) \<le> 20 \<and>
   map (\<lambda>r. r ''age'') (filter (\<lambda>r. r ''discipline'' = Text ''Swimming'') (rows example_df)) =
     [Number 24, NaN] \<and>
   (\<exists>t. age_by_discipline exact_arith (sort_values_desc ''age'') example_df = Inr (Some t) \<and>
        list_ex (\<lambda>g. g ''discipline'' = Text ''Swimming'' \<and> g ''age'' = Number 24) (rows t) \<and>
        list_ex (\<lambda>g. g ''discipline'' = Text ''Marathon'' \<and> g ''age'' = Number 30) (rows t))"
proof (intro conjI)
  show perm: "\<forall>rs. set (sort_values_desc ''age'' rs) = set rs"
    by (simp add: set_sort_values_desc)
  show wt: "well_typed example_df ''age''" by (rule example_ages_hold_no_string)
  show few: "length (group_keys ''discipline'' example_df) \<le> 20"
    by (simp add: example_disciplines)
  show "map (\<lambda>r. r ''age'') (filter (\<lambda>r. r ''discipline'' = Text ''Swimming'') (rows example_df)) =
     [Number 24, NaN]"
    by (rule example_ages)
  have guard: "''age'' \<in> set (columns example_df) \<and> is_numeric_dtype example_df ''age'' \<and>
        ''discipline'' \<in> set (columns example_df) \<and> ''name'' \<in> set (columns example_df)"
    by (simp add: example_guard)
  have "\<exists>t. age_by_discipline exact_arith (sort_values_desc ''age'') example_df = Inr (Some t)"
    by (rule mp[OF grouped_mean_skips_null[where df = example_df and ar = exact_arith
            and sort_values = "sort_values_desc ''age''", THEN conjunct2, THEN conjunct1] guard])
  then obtain t where e: "age_by_discipline exact_arith (sort_values_desc ''age'') example_df = Inr (Some t)"
    by (elim exE) (rule that)
  from perm wt e have hyp: "(\<forall>rs. set (sort_values_desc ''age'' rs) = set rs) \<and>
      well_typed example_df ''age'' \<and>
      age_by_discipline exact_arith (sort_values_desc ''age'') example_df = Inr (Some t)"
    by (intro conjI)
  note grouped_mean_skips_null[where df = example_df and ar = exact_arith
      and sort_values = "sort_values_desc ''age''" and t = t,
      THEN conjunct2, THEN conjunct2, THEN conjunct2, THEN conjunct1]
  from this hyp have concl: "(\<forall>g \<in> set (rows t).
         g ''age'' = mean_of_present exact_arith
           (map (\<lambda>r. r ''age'') (filter (\<lambda>r. r ''discipline'' = g ''discipline'') (rows example_df)))) \<and>
      (\<forall>r \<in> set (rows example_df).
         r ''discipline'' \<noteq> NaN \<and> isin (r ''discipline'') (top_disciplines_by_athletes example_df) \<longrightarrow>
         (\<exists>g \<in> set (rows t). g ''discipline'' = r ''discipline'')) \<and>
      (length (group_keys ''discipline'' example_df) \<le> 20 \<longrightarrow>
         (\<forall>r \<in> set (rows example_df). r ''discipline'' \<noteq> NaN \<longrightarrow>
            (\<exists>g \<in> set (rows t). g ''discipline'' = r ''discipline'')))"
    by (rule mp)
  then have sound: "\<And>g. g \<in> set (rows t) \<Longrightarrow>
         g ''age'' = mean_of_present exact_arith
           (map (\<lambda>r. r ''age'') (filter (\<lambda>r. r ''discipline'' = g ''discipline'') (rows example_df)))"
    by simp
  from concl few have every: "\<And>r. r \<in> set (rows example_df) \<Longrightarrow> r ''discipline'' \<noteq> NaN \<Longrightarrow>
            \<exists>g \<in> set (rows t). g ''discipline'' = r ''discipline''"
    by simp
  have "athlete_A \<in> set (rows example_df)" "athlete_A ''discipline'' = Text ''Swimming''"
    by (simp_all add: example_df_def athlete_A_def mk_row_def)
  with every[of athlete_A] obtain g where g: "g \<in> set (rows t)" "g ''discipline'' = Text ''Swimming''"
    by auto
  from sound[OF g(1)] have "g ''age'' = Number 24"
    unfolding g(2) example_ages by (simp only: example_means)
  with g have sw: "list_ex (\<lambda>g. g ''discipline'' = Text ''Swimming'' \<and> g ''age'' = Number 24) (rows t)"
    unfolding list_ex_iff by (intro bexI[of _ g] conjI)
  have "athlete_C \<in> set (rows example_df)" "athlete_C ''discipline'' = Text ''Marathon''"
    by (simp_all add: example_df_def athlete_C_def mk_row_def)
  with every[of athlete_C] obtain h where h: "h \<in> set (rows t)" "h ''discipline'' = Text ''Marathon''"
    by auto
  from sound[OF h(1)] have "h ''age'' = Number 30"
    unfolding h(2) example_ages by (simp only: example_means)
  with h have ma: "list_ex (\<lambda>g. g ''discipline'' = Text ''Marathon'' \<and> g ''age'' = Number 30) (rows t)"
    unfolding list_ex_iff by (intro bexI[of _ h] conjI)
  from e sw ma show "\<exists>t. age_by_discipline exact_arith (sort_values_desc ''age'') example_df = Inr (Some t) \<and>
        list_ex (\<lambda>g. g ''discipline'' = Text ''Swimming'' \<and> g ''age'' = Number 24) (rows t) \<and>
        list_ex (\<lambda>g. g ''discipline'' = Text ''Marathon'' \<and> g ''age'' = Number 30) (rows t)"
    by (intro exI conjI)
qed

section \<open>The loaded tables are never changed\<close>

lemma kept_refl: "kept n mem mem"
  by (simp add: kept_def)

lemma kept_trans: "kept n a b \<Longrightarrow> kept n b c \<Longrightarrow> kept n a c"
  by (simp add: kept_def)

lemma kept_length: "kept n mem mem' \<Longrightarrow> length mem \<le> length mem'"
  by (simp add: kept_def)

lemma kept_new: "n \<le> length mem \<Longrightarrow> new df mem = (a, mem') \<Longrightarrow> kept n mem mem' \<and> a = length mem \<and> a < length mem'"
  by (auto simp: kept_def new_def)

lemma kept_in_place: "n \<le> a \<Longrightarrow> kept n mem (in_place a f mem)"
  by (simp add: kept_def in_place_def)

lemma kept_bind_df_filtered:
  assumes n: "n \<le> length mem" and b: "bind_df_filtered w df_olympics mem = Inr (a, mem')"
  shows "kept n mem mem' \<and> n \<le> a \<and> a < length mem'"
proof -
  from b obtain by_year where "year_between (selected_years w) (mem ! df_olympics) = Inr by_year"
    by (auto simp: bind_df_filtered_def split: sum.splits)
  obtain a1 mem1 where n1: "new by_year mem = (a1, mem1)" by (cases "new by_year mem")
  note k1 = kept_new[OF n n1]
  have l1: "n \<le> length mem1" using n k1 by (auto dest: kept_length)
  obtain a2 mem2 where n2: "(if selected_type w \<noteq> Text ''All'' \<and> ''type'' \<in> set (columns (mem1 ! a1))
                  then new (filter_type (selected_type w) (mem1 ! a1)) mem1
                  else (a1, mem1)) = (a2, mem2)"
    by (cases "(if selected_type w \<noteq> Text ''All'' \<and> ''type'' \<in> set (columns (mem1 ! a1))
                  then new (filter_type (selected_type w) (mem1 ! a1)) mem1
                  else (a1, mem1))")
  have k2: "kept n mem1 mem2 \<and> n \<le> a2 \<and> a2 < length mem2"
    using n2 k1 l1 n by (auto split: if_splits dest: kept_new[OF l1] simp: kept_refl)
  have l2: "n \<le> length mem2" using l1 k2 by (auto dest: kept_length)
  have r: "(if selected_gender w \<noteq> [] \<and> ''gender'' \<in> set (columns (mem2 ! a2))
                   then new (filter_gender (selected_gender w) (mem2 ! a2)) mem2
                   else (a2, mem2)) = (a, mem')"
    using b \<open>year_between (selected_years w) (mem ! df_olympics) = Inr by_year\<close> n1 n2
    by (simp add: bind_df_filtered_def)
  have k3: "kept n mem2 mem' \<and> n \<le> a \<and> a < length mem'"
    using r k2 l2 by (auto split: if_splits dest: kept_new[OF l2] simp: kept_refl)
  from k1 k2 k3 show ?thesis by (blast intro: kept_trans)
qed

lemma kept_geo_tab:
  assumes "n \<le> a" and "a < length mem"
  shows "kept n mem (snd (geo_tab a df_coords mem))"
proof -
  let ?mem1 = "in_place a with_medal_present mem"
  have k1: "kept n mem ?mem1" using assms(1) by (rule kept_in_place)
  have l1: "n \<le> length ?mem1" using assms by (simp add: in_place_def)
  obtain metrics mem2 where n2: "new (agg_by_noc (?mem1 ! a)) ?mem1 = (metrics, mem2)"
    by (cases "new (agg_by_noc (?mem1 ! a)) ?mem1")
  note k2 = kept_new[OF l1 n2]
  have l2: "n \<le> length mem2" using l1 k2 by (auto dest: kept_length)
  have k12: "kept n mem mem2" using k1 k2 by (blast intro: kept_trans)
  have k14: "kept n mem (in_place map_data (dropna [''latitude'', ''longitude'']) mem3)"
    if n3: "new merged mem2 = (map_data, mem3)" for merged map_data mem3
  proof -
    note k3 = kept_new[OF l2 n3]
    have k4: "kept n mem3 (in_place map_data (dropna [''latitude'', ''longitude'']) mem3)"
      using k3 l2 by (intro kept_in_place) simp
    from k12 k3 k4 show ?thesis by (blast intro: kept_trans)
  qed
  have k15: "kept n mem (snd (case new merged mem2 of (map_data, mem3) \<Rightarrow>
               (Finished, in_place map_data (dropna [''latitude'', ''longitude'']) mem3)))" for merged
    using k14[of merged] by (cases "new merged mem2") simp
  show ?thesis
    using k1 k12 k15 n2 by (simp add: geo_tab_def Let_def kept_refl split: sum.splits)
qed

lemma kept_athletes_tab:
  assumes "n \<le> length mem"
  shows "kept n mem (snd (athletes_tab i a mem))"
proof -
  obtain plot_data mem1 where n1: "new (mem ! a) mem = (plot_data, mem1)"
    by (cases "new (mem ! a) mem")
  note k1 = kept_new[OF assms n1]
  let ?subset = "[selected_metric i] @
              (if group_by_cat i \<noteq> ''None'' \<and> group_by_cat i \<in> set (columns (mem1 ! plot_data))
               then [group_by_cat i] else [])"
  let ?mem2 = "in_place plot_data (dropna ?subset) mem1"
  have k2: "kept n mem1 ?mem2" using k1 assms by (intro kept_in_place) simp
  have l2: "n \<le> length ?mem2" using k1 assms by (auto simp: in_place_def dest: kept_length)
  have k12: "kept n mem ?mem2" using k1 k2 by (blast intro: kept_trans)
  have k3: "kept n ?mem2 (snd (new d ?mem2))" for d
    using kept_new[OF l2, of d] by (cases "new d ?mem2") auto
  have k13: "kept n mem (snd (new d ?mem2))" for d
    using k12 k3 by (blast intro: kept_trans)
  show ?thesis
    using k12 k13 n1 by (simp add: athletes_tab_def Let_def kept_refl)
qed

lemma kept_disciplines_tab:
  assumes "n \<le> length mem"
  shows "kept n mem (snd (disciplines_tab ar sv a mem))"
proof -
  have "kept n mem (snd (new t mem))" for t
    using kept_new[OF assms, of t] by (cases "new t mem") auto
  then show ?thesis
    by (simp add: disciplines_tab_def kept_refl split: sum.splits option.splits)
qed

lemma kept_and_next:
  assumes "kept n mem (snd r)" and "\<And>m. kept n mem m \<Longrightarrow> kept n m (snd (f m))"
  shows "kept n mem (snd (and_next r f))"
proof (cases r)
  case (Pair st m)
  with assms show ?thesis
    by (cases st) (auto simp: and_next_def intro: kept_trans)
qed

lemma kept_run:
  assumes n: "n \<le> length mem"
  shows "kept n mem (snd (run ar sv i df_olympics df_coords mem))"
proof (cases "bind_df_filtered (sidebar_widgets i) df_olympics mem")
  case (Inl e)
  then show ?thesis by (simp add: run_def kept_refl)
next
  case (Inr p)
  obtain a mem1 where p: "p = (a, mem1)" by (cases p)
  from kept_bind_df_filtered[OF n Inr[unfolded p]]
  have k1: "kept n mem mem1" and na: "n \<le> a" and al: "a < length mem1" by simp_all
  have g: "kept n mem1 (snd (geo_tab a df_coords mem1))" using na al by (rule kept_geo_tab)
  have at: "kept n mem1 (snd (and_next (geo_tab a df_coords mem1) (athletes_tab i a)))"
  proof (rule kept_and_next[OF g])
    fix m assume "kept n mem1 m"
    then have "n \<le> length m" using na al by (auto dest: kept_length)
    then show "kept n m (snd (athletes_tab i a m))" by (rule kept_athletes_tab)
  qed
  have d: "kept n mem1 (snd (and_next (and_next (geo_tab a df_coords mem1) (athletes_tab i a))
                               (disciplines_tab ar sv a)))"
  proof (rule kept_and_next[OF at])
    fix m assume "kept n mem1 m"
    then have "n \<le> length m" using na al by (auto dest: kept_length)
    then show "kept n m (snd (disciplines_tab ar sv a m))" by (rule kept_disciplines_tab)
  qed
  from k1 d have "kept n mem (snd (and_next (and_next (geo_tab a df_coords mem1) (athletes_tab i a))
                               (disciplines_tab ar sv a)))"
    by (rule kept_trans)
  with k1 show ?thesis using Inr p by (simp add: run_def kept_refl)
qed

lemma kept_session:
  "n \<le> length mem \<Longrightarrow> kept n mem (session ar sv steps df_olympics df_coords mem)"
proof (induction steps arbitrary: mem)
  case Nil
  then show ?case by (simp add: session_def kept_refl)
next
  case (Cons i steps)
  let ?m = "snd (run ar sv i df_olympics df_coords mem)"
  have k: "kept n mem ?m" using Cons.prems by (rule kept_run)
  then have "n \<le> length ?m" using Cons.prems by (auto dest: kept_length)
  then have "kept n ?m (session ar sv steps df_olympics df_coords ?m)" by (rule Cons.IH)
  with k have "kept n mem (session ar sv steps df_olympics df_coords ?m)" by (rule kept_trans)
  then show ?case by (simp add: session_def)
qed

text \<open>
  C4. After any sequence of runs of the script, on any states of the widgets and however
  each run ends, the loaded main table and the loaded coordinate table are in memory as
  they were loaded, and so is every other table that was in memory before: every table
  that a run makes or changes in place (the filtered table that receives the column
  \<open>medal_present\<close>, the join and the plot data that lose rows) is a new one.
\<close>

theorem loaded_tables_never_mutated:
  assumes "df_olympics < length mem" and "df_coords < length mem"
  shows "session ar sv steps df_olympics df_coords mem ! df_olympics = mem ! df_olympics \<and>
         session ar sv steps df_olympics df_coords mem ! df_coords = mem ! df_coords \<and>
         take (length mem) (session ar sv steps df_olympics df_coords mem) = mem"
proof -
  have "kept (length mem) mem (session ar sv steps df_olympics df_coords mem)"
    by (rule kept_session) simp
  then have t: "take (length mem) (session ar sv steps df_olympics df_coords mem) = mem"
    by (simp add: kept_def)
  have "take (length mem) (session ar sv steps df_olympics df_coords mem) ! a =
        session ar sv steps df_olympics df_coords mem ! a" if "a < length mem" for a
    using that by simp
  with t assms show ?thesis by metis
qed


theorem loaded_tables_never_mutated_witness:
  "(0::nat) < length [example_df, example_coords] \<and> (1::nat) < length [example_df, example_coords] \<and>
   session exact_arith (sort_values_desc ''age'') [example_interaction, example_interaction] 0 1
     [example_df, example_coords] ! 0 = example_df \<and>
   session exact_arith (sort_values_desc ''age'') [example_interaction, example_interaction] 0 1
     [example_df, example_coords] ! 1 = example_coords"
proof -
  have 0: "(0::nat) < length [example_df, example_coords]" by simp
  have 1: "(1::nat) < length [example_df, example_coords]" by simp
  from loaded_tables_never_mutated[OF 0 1, of exact_arith "sort_values_desc ''age''"
      "[example_interaction, example_interaction]"] 0 1
  show ?thesis by simp
qed

text \<open>
  The tab does write in place: the filtered table at address 2 has the new column
  afterwards.
\<close>

lemma example_run_writes_in_place:
  "columns (snd (geo_tab 2 1 [example_df, example_coords, example_df]) ! 2) =
     essential_cols @ [''medal_present'']"
  by (simp add: geo_tab_def in_place_def new_def Let_def with_medal_present_def setitem_def
      example_df_def essential_cols_def empty_def example_coords_def project_def coords_cols_def
      agg_by_noc_def metrics_cols_def split: sum.splits)

section \<open>Ranked lists\<close>

text \<open>
  \<^verbatim>\<open>nlargest\<close>, with which the script ranks the disciplines, leaves the rows of one value
  in the order of the table: among equal counts the discipline that comes first in the
  grouped table is ranked first.
\<close>

lemma cell_le_refl: "cell_le c c"
  by (cases c) simp_all

lemma filter_insert_desc:
  "filter (\<lambda>y. y c = v) (insert_desc c x ys) =
   (if x c = v then x # filter (\<lambda>y. y c = v) ys else filter (\<lambda>y. y c = v) ys)"
  by (induction ys) (auto simp: cell_le_refl)

lemma nlargest_all_keeps_ties_in_order:
  "filter (\<lambda>y. y c = v) (rows (nlargest (length (rows df)) c df)) = filter (\<lambda>y. y c = v) (rows df)"
proof -
  have len: "length (insert_desc c x ys) = Suc (length ys)" for x ys
    by (induction ys) simp_all
  have "length (foldr (insert_desc c) rs []) = length rs" for rs
    by (induction rs) (simp_all add: len)
  moreover have "filter (\<lambda>y. y c = v) (foldr (insert_desc c) rs []) = filter (\<lambda>y. y c = v) rs" for rs
    by (induction rs) (simp_all add: filter_insert_desc)
  ultimately show ?thesis by (simp add: nlargest_def)
qed

end
